theory Spec2Isabelle
  imports Main
begin

section \<open>JavaScript strings, arrays and thrown values\<close>

text \<open>
  Strings are lists of characters (character codes below 256, among which the line
  terminators are LF and CR). A value that JavaScript leaves \<^verbatim>\<open>undefined\<close> is
  \<open>None\<close> of an option type; \<open>js_str\<close> is what a template literal prints for it.
  Every exception of the source is a value of \<open>thrown\<close>; a function that can throw
  returns \<open>thrown + 'a\<close>, and an \<^verbatim>\<open>async\<close> function that rejects returns \<open>Inl\<close> too.
\<close>

datatype thrown =
    TypeError string
  | ReferenceError string
  | SyntaxError string
  | MissingVersionJson string string
  | CorruptedVersionJson string string
  | CircularDependenciesError string "string list"
  | BadVersionJson string string
  | CorruptedLibrary string

text \<open>The \<^verbatim>\<open>error\<close> and \<^verbatim>\<open>version\<close> properties that a handler reads off a caught value.
  The built-in errors carry neither.\<close>

fun err_error :: "thrown \<Rightarrow> string option" where
  "err_error (MissingVersionJson v p) = Some ''MissingVersionJson''"
| "err_error (CorruptedVersionJson v j) = Some ''CorruptedVersionJson''"
| "err_error (CircularDependenciesError v c) = Some ''CircularDependenciesError''"
| "err_error (BadVersionJson v m) = Some ''BadVersionJson''"
| "err_error _ = None"

fun err_version :: "thrown \<Rightarrow> string option" where
  "err_version (MissingVersionJson v p) = Some v"
| "err_version (CorruptedVersionJson v j) = Some v"
| "err_version (CircularDependenciesError v c) = Some v"
| "err_version (BadVersionJson v m) = Some v"
| "err_version _ = None"

definition js_str :: "string option \<Rightarrow> string" where
  "js_str v = (case v of None \<Rightarrow> ''undefined'' | Some s \<Rightarrow> s)"

text \<open>\<^verbatim>\<open>s.split(c)\<close> for a one-character separator: never empty, \<^verbatim>\<open>''.split(c)\<close> is \<^verbatim>\<open>['']\<close>.\<close>

fun split_on :: "char \<Rightarrow> string \<Rightarrow> string list" where
  "split_on c [] = [[]]"
| "split_on c (x # xs) =
     (if x = c then [] # split_on c xs
      else (case split_on c xs of [] \<Rightarrow> [[x]] | y # ys \<Rightarrow> (x # y) # ys))"

text \<open>\<^verbatim>\<open>xs.join(sep)\<close>.\<close>

fun join_with :: "string \<Rightarrow> string list \<Rightarrow> string" where
  "join_with sep [] = []"
| "join_with sep [x] = x"
| "join_with sep (x # y # ys) = x @ sep @ join_with sep (y # ys)"

definition startsWith :: "string \<Rightarrow> string \<Rightarrow> bool" where
  "startsWith s p = (take (length p) s = p)"

definition endsWith :: "string \<Rightarrow> string \<Rightarrow> bool" where
  "endsWith s p = (length p \<le> length s \<and> drop (length s - length p) s = p)"

text \<open>\<^verbatim>\<open>s.substring(i, j)\<close> on non-negative indices: both are clamped to the length and
  swapped when out of order.\<close>

definition substring :: "string \<Rightarrow> nat \<Rightarrow> nat \<Rightarrow> string" where
  "substring s i j =
     (let a = min i (length s); b = min j (length s)
      in take (max a b - min a b) (drop (min a b) s))"

text \<open>\<^verbatim>\<open>xs.slice(0, e)\<close>: a negative end counts from the end of the array.\<close>

definition slice0 :: "'a list \<Rightarrow> int \<Rightarrow> 'a list" where
  "slice0 xs e =
     (let n = int (length xs); k = (if e < 0 then max (n + e) 0 else min e n)
      in take (nat k) xs)"

text \<open>\<^verbatim>\<open>s.replace(/\./g, '/')\<close>.\<close>

definition dots_to_slashes :: "string \<Rightarrow> string" where
  "dots_to_slashes s = map (\<lambda>c. if c = CHR ''.'' then CHR ''/'' else c) s"

text \<open>
  \<^verbatim>\<open>extname\<close> of Node's \<^verbatim>\<open>path\<close> module (POSIX flavour) on one path segment, that is a
  string without \<^verbatim>\<open>/\<close>: the text from the last dot on, and the empty string when there
  is no dot, when the last dot is the first character, or when the segment is \<^verbatim>\<open>..\<close>.
\<close>

definition extname :: "string \<Rightarrow> string" where
  "extname f =
     (let e = rev (takeWhile (\<lambda>c. c \<noteq> CHR ''.'') (rev f))
      in if CHR ''.'' \<notin> set f \<or> Suc (length e) = length f \<or> f = ''..'' then []
         else CHR ''.'' # e)"

section \<open>Library coordinates\<close>

text \<open>The object that \<^verbatim>\<open>resolve\<close> and \<^verbatim>\<open>resolveFromPath\<close> return. \<open>artifactId\<close> and
  \<open>version\<close> are \<^verbatim>\<open>undefined\<close> when \<^verbatim>\<open>resolveFromPath\<close> is given fewer than three segments.\<close>

record LibraryInfo =
  li_type :: string
  groupId :: string
  artifactId :: "string option"
  version :: "string option"
  classifier :: string
  name :: string
  path :: string
  isSnapshot :: bool

definition resolveFromPath :: "string \<Rightarrow> thrown + LibraryInfo" where
  "resolveFromPath p =
     (let parts = split_on CHR ''/'' p;
          n = length parts;
          file = last parts;
          ver = (if 2 \<le> n then Some (parts ! (n - 2)) else None);
          art = (if 3 \<le> n then Some (parts ! (n - 3)) else None);
          grp = join_with ''.'' (slice0 parts (int n - 3));
          filePrefix = js_str art @ ''-'' @ js_str ver;
          ext = extname file;
          ty = drop 1 ext;
          snap = startsWith file (js_str ver)
      in case (if snap
               then (case ver of None \<Rightarrow> Inl (TypeError ''version.length'')
                     | Some v \<Rightarrow> Inr (length v))
               else Inr (length filePrefix)) of
           Inl e \<Rightarrow> Inl e
         | Inr start \<Rightarrow>
             (let c0 = substring file start (length file - length ext);
                  c = (if startsWith c0 ''-'' then drop 1 c0 else c0);
                  n0 = grp @ '':'' @ js_str art @ '':'' @ js_str ver;
                  n1 = (if c \<noteq> [] then n0 @ '':'' @ c else n0);
                  n2 = (if ty \<noteq> ''jar'' then n1 @ ''@'' @ ty else n1)
              in Inr \<lparr>li_type = ty, groupId = grp, artifactId = art, version = ver,
                      classifier = c, name = n2, path = p, isSnapshot = snap\<rparr>))"

text \<open>\<^verbatim>\<open>resolve\<close> on a coordinate string (for an object argument the source reads its
  \<^verbatim>\<open>name\<close> first). The destructuring defaults apply to a missing element only; a body
  with fewer than three \<^verbatim>\<open>:\<close> parts leaves \<^verbatim>\<open>version\<close> undefined and
  \<^verbatim>\<open>version.endsWith\<close> throws.\<close>

definition resolve :: "string \<Rightarrow> thrown + LibraryInfo" where
  "resolve nm =
     (let at = split_on CHR ''@'' nm;
          body = hd at;
          ty = (case tl at of [] \<Rightarrow> ''jar'' | t # _ \<Rightarrow> t)
      in case split_on CHR '':'' body of
           g # a # v # rest \<Rightarrow>
             (let c = (case rest of [] \<Rightarrow> [] | c # _ \<Rightarrow> c);
                  snap = endsWith v ''-SNAPSHOT'';
                  groupPath = dots_to_slashes g;
                  base0 = groupPath @ ''/'' @ a @ ''/'' @ v @ ''/'' @ a @ ''-'' @ v;
                  base = (if c \<noteq> [] then base0 @ ''-'' @ c else base0)
              in Inr \<lparr>li_type = ty, groupId = g, artifactId = Some a, version = Some v,
                      classifier = c, name = nm, path = base @ ''.'' @ ty,
                      isSnapshot = snap\<rparr>)
         | _ \<Rightarrow> Inl (TypeError ''version.endsWith''))"

text \<open>The two readings of a coordinate that the round-trip property compares:
  \<^verbatim>\<open>resolve(c).path\<close> and \<^verbatim>\<open>resolveFromPath(resolve(c).path).name\<close>.\<close>

definition resolve_path :: "string \<Rightarrow> thrown + string" where
  "resolve_path c = map_sum id path (resolve c)"

definition round_trip :: "string \<Rightarrow> thrown + string" where
  "round_trip c =
     (case resolve c of Inl e \<Rightarrow> Inl e
      | Inr i \<Rightarrow> map_sum id name (resolveFromPath (path i)))"

text \<open>The specification's side of the round trip: the coordinate string
  \<^verbatim>\<open>g:a:v[:cl][@t]\<close> built from its components, and its canonical path
  \<^verbatim>\<open>{g with dots as slashes}/{a}/{v}/{a}-{v}[-{cl}].{t}\<close> (type \<^verbatim>\<open>jar\<close> when none is
  given). \<open>plain\<close> says that a component holds none of the separators.\<close>

definition coordinate ::
  "string \<Rightarrow> string \<Rightarrow> string \<Rightarrow> string option \<Rightarrow> string option \<Rightarrow> string" where
  "coordinate g a v cl t =
     g @ '':'' @ a @ '':'' @ v @ (case cl of None \<Rightarrow> [] | Some c \<Rightarrow> '':'' @ c)
       @ (case t of None \<Rightarrow> [] | Some y \<Rightarrow> ''@'' @ y)"

definition canonical_path ::
  "string \<Rightarrow> string \<Rightarrow> string \<Rightarrow> string option \<Rightarrow> string option \<Rightarrow> string" where
  "canonical_path g a v cl t =
     dots_to_slashes g @ ''/'' @ a @ ''/'' @ v @ ''/'' @ a @ ''-'' @ v
       @ (case cl of None \<Rightarrow> [] | Some c \<Rightarrow> ''-'' @ c)
       @ ''.'' @ (case t of None \<Rightarrow> ''jar'' | Some y \<Rightarrow> y)"

definition plain :: "string \<Rightarrow> bool" where
  "plain s = (CHR '':'' \<notin> set s \<and> CHR ''@'' \<notin> set s \<and> CHR ''/'' \<notin> set s)"

section \<open>The directory layout\<close>

text \<open>
  \<^verbatim>\<open>MinecraftFolder\<close> objects live in a heap and are named by their address, so that
  "the same instance" can be told from "an equal one". \<^verbatim>\<open>MinecraftFolder.from\<close> takes a
  string, an instance, or another object with a \<^verbatim>\<open>root\<close> field; \<^verbatim>\<open>new\<close> allocates at the
  end of the heap.
\<close>

record MinecraftFolder =
  root :: string

type_synonym heap = "MinecraftFolder list"

datatype location = LocString string | LocInstance nat | LocObject string

definition MinecraftFolder_new :: "heap \<Rightarrow> string \<Rightarrow> heap \<times> nat" where
  "MinecraftFolder_new h r = (h @ [\<lparr>root = r\<rparr>], length h)"

fun MinecraftFolder_from :: "heap \<Rightarrow> location \<Rightarrow> heap \<times> nat" where
  "MinecraftFolder_from h (LocString s) = MinecraftFolder_new h s"
| "MinecraftFolder_from h (LocInstance r) = (h, r)"
| "MinecraftFolder_from h (LocObject r) = MinecraftFolder_new h r"

text \<open>The folder that \<^verbatim>\<open>MinecraftFolder.from(location)\<close> evaluates to, read off the heap.\<close>

definition folder_of :: "heap \<Rightarrow> location \<Rightarrow> MinecraftFolder" where
  "folder_of h loc = (case MinecraftFolder_from h loc of (h', r) \<Rightarrow> h' ! r)"

text \<open>
  The path getters. Node's \<^verbatim>\<open>path.join\<close> is the host's and is a parameter \<open>join\<close> of
  every getter; \<open>slash_join\<close> is its value on clean POSIX segments, used to run examples.
  \<^verbatim>\<open>path.join\<close> throws a \<^verbatim>\<open>TypeError\<close> on an argument that is not a string, which
  \<open>getVersionJson_of\<close> records for a version that is \<^verbatim>\<open>undefined\<close>.
\<close>

type_synonym joiner = "string list \<Rightarrow> string"

definition slash_join :: joiner where
  "slash_join xs = join_with ''/'' xs"

definition getPath :: "joiner \<Rightarrow> MinecraftFolder \<Rightarrow> string list \<Rightarrow> string" where
  "getPath join f ps = join (root f # ps)"

definition versions :: "joiner \<Rightarrow> MinecraftFolder \<Rightarrow> string" where
  "versions join f = getPath join f [''versions'']"

definition libraries :: "joiner \<Rightarrow> MinecraftFolder \<Rightarrow> string" where
  "libraries join f = join [root f, ''libraries'']"

definition getVersionRoot :: "joiner \<Rightarrow> MinecraftFolder \<Rightarrow> string \<Rightarrow> string" where
  "getVersionRoot join f v = join [versions join f, v]"

definition getVersionJson :: "joiner \<Rightarrow> MinecraftFolder \<Rightarrow> string \<Rightarrow> string" where
  "getVersionJson join f v = join [getVersionRoot join f v, v @ ''.json'']"

definition getVersionJson_of :: "joiner \<Rightarrow> MinecraftFolder \<Rightarrow> string option \<Rightarrow> thrown + string" where
  "getVersionJson_of join f v =
     (case v of None \<Rightarrow> Inl (TypeError ''The path argument must be of type string'')
      | Some s \<Rightarrow> Inr (getVersionJson join f s))"

text \<open>\<^verbatim>\<open>getVersionJar(version)\<close> with no type, the only use in the checks below.\<close>

definition getVersionJar :: "joiner \<Rightarrow> MinecraftFolder \<Rightarrow> string \<Rightarrow> string" where
  "getVersionJar join f v = join [getVersionRoot join f v, v @ ''.jar'']"

definition getLibraryByPath :: "joiner \<Rightarrow> MinecraftFolder \<Rightarrow> string \<Rightarrow> string" where
  "getLibraryByPath join f p = join [libraries join f, p]"

definition getAssetsIndex :: "joiner \<Rightarrow> MinecraftFolder \<Rightarrow> string \<Rightarrow> string" where
  "getAssetsIndex join f a = join [getPath join f [''assets'', ''indexes'', a @ ''.json'']]"

definition getAsset :: "joiner \<Rightarrow> MinecraftFolder \<Rightarrow> string \<Rightarrow> string" where
  "getAsset join f h = join [getPath join f [''assets'', ''objects'', take 2 h, h]]"

section \<open>Placeholder interpolation\<close>

text \<open>
  \<^verbatim>\<open>format(template, args)\<close> is \<^verbatim>\<open>template.replace(/\$\{(.*?)}/g, callback)\<close>. The
  regular expression matches, leftmost first, \<^verbatim>\<open>${\<close>, then as few characters as possible
  other than line terminators, then \<^verbatim>\<open>}\<close>; \<open>closes\<close> says that the text after \<^verbatim>\<open>${\<close>
  reaches a \<^verbatim>\<open>}\<close> before any line terminator. The callback receives the whole match as
  \<^verbatim>\<open>key\<close>, looks \<^verbatim>\<open>key.substring(2).substring(0, key.length - 3)\<close> up in \<^verbatim>\<open>args\<close> and
  returns \<^verbatim>\<open>value || key\<close>; what it returns is not scanned again.

  The placeholder map is an object literal whose own properties hold strings (\<open>args\<close>,
  \<open>None\<close> for a key it does not have). The lookup \<^verbatim>\<open>args[name]\<close> reads through the prototype:
  for a name that the map lacks it finds what \<^verbatim>\<open>Object.prototype\<close> has under that name, a
  function or, for \<^verbatim>\<open>__proto__\<close>, the prototype object itself. Such a value is truthy and
  \<^verbatim>\<open>replace\<close> inserts its string form; \<open>object_prototype\<close> gives that string form as Node
  prints it. \<open>lookup\<close> is \<^verbatim>\<open>args[name]\<close> as the text that would be inserted, \<open>None\<close> for
  \<^verbatim>\<open>undefined\<close>.
\<close>

definition line_terminator :: "char \<Rightarrow> bool" where
  "line_terminator c = (c = CHR 0x0A \<or> c = CHR 0x0D)"

definition closes :: "string \<Rightarrow> bool" where
  "closes s =
     (case dropWhile (\<lambda>c. c \<noteq> CHR ''}'' \<and> \<not> line_terminator c) s of
        [] \<Rightarrow> False | c # _ \<Rightarrow> c = CHR ''}'')"

definition object_prototype :: "string \<Rightarrow> string option" where
  "object_prototype k =
     (if k = ''__proto__'' then Some ''[object Object]''
      else if k = ''constructor'' then Some ''function Object() { [native code] }''
      else if k \<in> set [''__defineGetter__'', ''__defineSetter__'', ''hasOwnProperty'',
                         ''__lookupGetter__'', ''__lookupSetter__'', ''isPrototypeOf'',
                         ''propertyIsEnumerable'', ''toString'', ''valueOf'', ''toLocaleString'']
      then Some (''function '' @ k @ ''() { [native code] }'')
      else None)"

definition lookup :: "(string \<Rightarrow> string option) \<Rightarrow> string \<Rightarrow> string option" where
  "lookup args k = (case args k of Some v \<Rightarrow> Some v | None \<Rightarrow> object_prototype k)"

definition format_callback :: "(string \<Rightarrow> string option) \<Rightarrow> string \<Rightarrow> string" where
  "format_callback args key =
     (case lookup args (substring (drop 2 key) 0 (length key - 3)) of
        None \<Rightarrow> key
      | Some v \<Rightarrow> if v \<noteq> [] then v else key)"

function format :: "string \<Rightarrow> (string \<Rightarrow> string option) \<Rightarrow> string" where
  "format [] args = []"
| "format [c] args = [c]"
| "format (c1 # c2 # cs) args =
     (if c1 = CHR ''$'' \<and> c2 = CHR ''{'' \<and> closes cs
      then format_callback args (''${'' @ takeWhile (\<lambda>c. c \<noteq> CHR ''}'') cs @ ''}'')
             @ format (drop 1 (dropWhile (\<lambda>c. c \<noteq> CHR ''}'') cs)) args
      else c1 # format (c2 # cs) args)"
  by pat_completeness auto
termination
  by (relation "measure (\<lambda>(s, a). length s)")
     (auto simp: less_Suc_eq_le intro: le_trans[OF diff_le_self] le_SucI length_dropWhile_le)

text \<open>
  The specification's side of interpolation: a template seen as a sequence of literal
  pieces and placeholders, the string it stands for, and the string in which every
  placeholder whose key the lookup finds with a non-empty value has been replaced by
  that value. A sequence is well formed when no \<^verbatim>\<open>${\<close> stands in its literal text, within
  a piece or where a piece ending in \<^verbatim>\<open>$\<close> meets the next one, and no key holds a \<^verbatim>\<open>}\<close> or a
  line terminator.
\<close>

datatype piece = Lit string | Placeholder string

fun render :: "piece list \<Rightarrow> string" where
  "render [] = []"
| "render (Lit s # ps) = s @ render ps"
| "render (Placeholder k # ps) = ''${'' @ k @ ''}'' @ render ps"

fun substituted :: "(string \<Rightarrow> string option) \<Rightarrow> piece list \<Rightarrow> string" where
  "substituted args [] = []"
| "substituted args (Lit s # ps) = s @ substituted args ps"
| "substituted args (Placeholder k # ps) =
     (case lookup args k of
        None \<Rightarrow> ''${'' @ k @ ''}''
      | Some v \<Rightarrow> if v \<noteq> [] then v else ''${'' @ k @ ''}'') @ substituted args ps"

fun has_open :: "string \<Rightarrow> bool" where
  "has_open (c1 # c2 # cs) = ((c1 = CHR ''$'' \<and> c2 = CHR ''{'') \<or> has_open (c2 # cs))"
| "has_open cs = False"

fun well_formed :: "piece list \<Rightarrow> bool" where
  "well_formed [] = True"
| "well_formed (Lit s # ps) = (\<not> has_open (s @ take 1 (render ps)) \<and> well_formed ps)"
| "well_formed (Placeholder k # ps) =
     (CHR ''}'' \<notin> set k \<and> \<not> list_ex line_terminator k \<and> well_formed ps)"

section \<open>The rule evaluator\<close>

text \<open>
  A rule as the manifests give it: an action, an optional \<^verbatim>\<open>os\<close> clause with optional
  \<^verbatim>\<open>name\<close>, \<^verbatim>\<open>version\<close> (a regular expression) and \<^verbatim>\<open>arch\<close>, and an optional \<^verbatim>\<open>features\<close>
  object from feature names to booleans. An optional field that is missing is \<open>None\<close>.
  The regular expression engine behind \<^verbatim>\<open>String.prototype.match\<close> is the host's: it is the
  parameter \<open>rx\<close>, with \<open>rx pattern subject\<close> true when the pattern (taken to be
  well formed) matches somewhere in the subject.
\<close>

record Platform =
  pname :: string
  pversion :: string
  parch :: string

record OsRule =
  os_name :: "string option"
  os_version :: "string option"
  os_arch :: "string option"

record Rule =
  action :: string
  os :: "OsRule option"
  features :: "(string \<times> bool) list option"

type_synonym regex_match = "string \<Rightarrow> string \<Rightarrow> bool"

text \<open>The condition of the \<^verbatim>\<open>os\<close> branch:
  \<^verbatim>\<open>platform.name === osRule.name && (!osRule.version || platform.version.match(osRule.version))\<close>.\<close>

definition os_applies :: "regex_match \<Rightarrow> Platform \<Rightarrow> OsRule \<Rightarrow> bool" where
  "os_applies rx platform osRule =
     (Some (pname platform) = os_name osRule
      \<and> (case os_version osRule of
            None \<Rightarrow> True
          | Some v \<Rightarrow> v = [] \<or> rx v (pversion platform)))"

text \<open>\<^verbatim>\<open>Object.entries(featureRequire).every(([k, v]) => v ? features.indexOf(k) !== -1
  : features.indexOf(k) === -1)\<close>.\<close>

definition features_apply :: "(string \<times> bool) list \<Rightarrow> string list \<Rightarrow> bool" where
  "features_apply featureRequire fs =
     list_all (\<lambda>(k, v). if v then k \<in> set fs else k \<notin> set fs) featureRequire"

text \<open>The value of \<^verbatim>\<open>apply\<close> at the end of one iteration of the loop.\<close>

definition rule_applies :: "regex_match \<Rightarrow> Platform \<Rightarrow> string list \<Rightarrow> Rule \<Rightarrow> bool" where
  "rule_applies rx platform fs rule =
     (let apply = (case os rule of None \<Rightarrow> True | Some osRule \<Rightarrow> os_applies rx platform osRule)
      in if apply
         then (case features rule of None \<Rightarrow> True | Some fr \<Rightarrow> features_apply fr fs)
         else False)"

fun checkAllowed_loop ::
  "regex_match \<Rightarrow> Platform \<Rightarrow> string list \<Rightarrow> bool \<Rightarrow> Rule list \<Rightarrow> bool" where
  "checkAllowed_loop rx platform fs allow [] = allow"
| "checkAllowed_loop rx platform fs allow (rule # rules) =
     checkAllowed_loop rx platform fs
       (if rule_applies rx platform fs rule then action rule = ''allow'' else allow) rules"

text \<open>\<^verbatim>\<open>Version.checkAllowed(rules, platform, features)\<close>; \<open>None\<close> is a \<^verbatim>\<open>rules\<close> argument
  that is \<^verbatim>\<open>undefined\<close>. Every caller passes the platform; a caller that leaves the
  features out passes the empty list.\<close>

definition checkAllowed ::
  "regex_match \<Rightarrow> Rule list option \<Rightarrow> Platform \<Rightarrow> string list \<Rightarrow> bool" where
  "checkAllowed rx rules platform fs =
     (case rules of
        None \<Rightarrow> True
      | Some rs \<Rightarrow> if rs = [] then True else checkAllowed_loop rx platform fs False rs)"

text \<open>
  The specification's side. \<open>last_applicable_wins\<close> is its algorithm for a given notion
  of "applies": an empty or absent list allows; otherwise the answer is the action of
  the last rule that applies, and \<^verbatim>\<open>false\<close> when none does. \<open>applies_spec\<close> is the
  specification's notion: each of \<^verbatim>\<open>os.name\<close>, \<^verbatim>\<open>os.version\<close>, \<^verbatim>\<open>os.arch\<close> constrains the
  platform when it is present, and every features entry must agree with membership
  in the feature set. \<open>applies_no_arch\<close> is the amended notion: an \<^verbatim>\<open>os\<close> clause must carry
  a name, equal to the platform's (a clause without a name never applies); there is no
  \<^verbatim>\<open>os.arch\<close> constraint; and an empty version pattern is read as no pattern.
\<close>

definition last_applicable_wins :: "(Rule \<Rightarrow> bool) \<Rightarrow> Rule list option \<Rightarrow> bool" where
  "last_applicable_wins applies rules =
     (case rules of
        None \<Rightarrow> True
      | Some rs \<Rightarrow>
          if rs = [] then True
          else (case filter applies rs of
                  [] \<Rightarrow> False
                | a # as \<Rightarrow> action (last (a # as)) = ''allow''))"

definition features_match :: "Rule \<Rightarrow> string set \<Rightarrow> bool" where
  "features_match rule featureSet =
     (case features rule of
        None \<Rightarrow> True
      | Some fr \<Rightarrow> list_all (\<lambda>(k, required). (k \<in> featureSet) = required) fr)"

definition applies_spec :: "regex_match \<Rightarrow> Platform \<Rightarrow> string set \<Rightarrow> Rule \<Rightarrow> bool" where
  "applies_spec rx platform featureSet rule =
     ((case os rule of
         None \<Rightarrow> True
       | Some c \<Rightarrow>
           (case os_name c of None \<Rightarrow> True | Some n \<Rightarrow> n = pname platform)
           \<and> (case os_version c of None \<Rightarrow> True | Some v \<Rightarrow> rx v (pversion platform))
           \<and> (case os_arch c of None \<Rightarrow> True | Some a \<Rightarrow> a = parch platform))
      \<and> features_match rule featureSet)"

definition applies_no_arch :: "regex_match \<Rightarrow> Platform \<Rightarrow> string set \<Rightarrow> Rule \<Rightarrow> bool" where
  "applies_no_arch rx platform featureSet rule =
     ((case os rule of
         None \<Rightarrow> True
       | Some c \<Rightarrow>
           os_name c = Some (pname platform)
           \<and> (case os_version c of None \<Rightarrow> True | Some v \<Rightarrow> v = [] \<or> rx v (pversion platform)))
      \<and> features_match rule featureSet)"

text \<open>A matcher to run examples with: the pattern, read as plain text, occurs in the
  subject.\<close>

fun occurs_in :: regex_match where
  "occurs_in p [] = (p = [])"
| "occurs_in p (c # cs) = (startsWith (c # cs) p \<or> occurs_in p cs)"

section \<open>Libraries\<close>

text \<open>
  A download descriptor and a library entry of a manifest, field by field; \<open>None\<close> is a
  field that the JSON does not have. \<^verbatim>\<open>extract\<close> is \<open>None\<close> when missing, \<open>Some None\<close> when
  it has no \<^verbatim>\<open>exclude\<close>. A \<^verbatim>\<open>ResolvedLibrary\<close> has the fields of the \<^verbatim>\<open>LibraryInfo\<close> it is
  built from, with the name given to the constructor, and the download.
\<close>

record Artifact =
  a_path :: string
  a_url :: "string option"
  sha1 :: "string option"
  a_size :: int

record LibDownloads =
  artifact :: "Artifact option"
  classifiers :: "(string \<times> Artifact) list option"

record RawLibrary =
  lib_name :: string
  lib_rules :: "Rule list option"
  natives :: "(string \<times> string) list option"
  lib_downloads :: "LibDownloads option"
  lib_extract :: "string list option option"
  lib_url :: "string option"
  checksums :: "string list option"
  serverreq :: "bool option"
  clientreq :: "bool option"

record ResolvedLibrary = LibraryInfo +
  download :: Artifact
  isNative :: bool
  rl_checksums :: "string list option"
  rl_serverreq :: "bool option"
  rl_clientreq :: "bool option"
  extractExclude :: "string list option"

definition new_ResolvedLibrary ::
  "string \<Rightarrow> LibraryInfo \<Rightarrow> Artifact \<Rightarrow> bool \<Rightarrow> string list option \<Rightarrow> bool option
     \<Rightarrow> bool option \<Rightarrow> string list option \<Rightarrow> ResolvedLibrary" where
  "new_ResolvedLibrary nm info dl native cks sreq creq excl =
     \<lparr>li_type = li_type info, groupId = groupId info, artifactId = artifactId info,
      version = version info, classifier = classifier info, name = nm, path = path info,
      isSnapshot = isSnapshot info, download = dl, isNative = native, rl_checksums = cks,
      rl_serverreq = sreq, rl_clientreq = creq, extractExclude = excl\<rparr>"

text \<open>
  \<^verbatim>\<open>s.replace(pattern, replacement)\<close> with a string pattern: the first occurrence only,
  and in the replacement \<^verbatim>\<open>$$\<close>, \<^verbatim>\<open>$&\<close>, \<^verbatim>\<open>$`\<close> and \<^verbatim>\<open>$'\<close> stand for a dollar sign, the
  match, the text before it and the text after it.
\<close>

fun find_first :: "string \<Rightarrow> string \<Rightarrow> (string \<times> string) option" where
  "find_first pat [] = (if pat = [] then Some ([], []) else None)"
| "find_first pat (c # cs) =
     (if startsWith (c # cs) pat then Some ([], drop (length pat) (c # cs))
      else (case find_first pat cs of None \<Rightarrow> None | Some (b, a) \<Rightarrow> Some (c # b, a)))"

fun expand_replacement :: "string \<Rightarrow> string \<Rightarrow> string \<Rightarrow> string \<Rightarrow> string" where
  "expand_replacement m b a (c1 # c2 # r) =
     (if c1 = CHR ''$'' \<and> c2 = CHR ''$'' then CHR ''$'' # expand_replacement m b a r
      else if c1 = CHR ''$'' \<and> c2 = CHR ''&'' then m @ expand_replacement m b a r
      else if c1 = CHR ''$'' \<and> c2 = CHR 0x60 then b @ expand_replacement m b a r
      else if c1 = CHR ''$'' \<and> c2 = CHR 0x27 then a @ expand_replacement m b a r
      else c1 # expand_replacement m b a (c2 # r))"
| "expand_replacement m b a r = r"

definition js_replace :: "string \<Rightarrow> string \<Rightarrow> string \<Rightarrow> string" where
  "js_replace s pat repl =
     (case find_first pat s of
        None \<Rightarrow> s
      | Some (b, a) \<Rightarrow> b @ expand_replacement pat b a repl @ a)"

text \<open>The classifier of a native entry:
  \<^verbatim>\<open>lib.natives[platform.name].replace('${arch}', platform.arch.substring(1))\<close>.\<close>

definition native_classifier :: "string \<Rightarrow> Platform \<Rightarrow> string" where
  "native_classifier entry platform = js_replace entry ''${arch}'' (drop 1 (parch platform))"

text \<open>
  \<^verbatim>\<open>Version.resolveLibrary(lib, platform)\<close>. The body calls \<^verbatim>\<open>LibraryInfo.resolve\<close>; what the
  identifier \<^verbatim>\<open>LibraryInfo\<close> is bound to where the function is defined is the first argument
  of \<open>resolveLibrary_in\<close>, \<open>None\<close> for an identifier that is not declared, in which case
  evaluating it throws a \<^verbatim>\<open>ReferenceError\<close>. The module declares \<^verbatim>\<open>resolveFromPath\<close>,
  \<^verbatim>\<open>resolve\<close>, \<^verbatim>\<open>ResolvedLibrary\<close> and \<^verbatim>\<open>Version\<close> and imports \<^verbatim>\<open>MinecraftFolder\<close>,
  \<^verbatim>\<open>getPlatform\<close>, \<^verbatim>\<open>extname\<close> and \<^verbatim>\<open>readFile\<close>: it has no \<^verbatim>\<open>LibraryInfo\<close>, which is
  \<open>LibraryInfo_binding\<close>, and \<open>resolveLibrary\<close> is the function as the module has it.
  The result is \<open>Inr None\<close> for \<^verbatim>\<open>undefined\<close>. The message of the "Corrupted library" error
  is cut down to the library's name.
\<close>

definition resolveLibrary_in ::
  "(string \<Rightarrow> thrown + LibraryInfo) option \<Rightarrow> regex_match \<Rightarrow> RawLibrary \<Rightarrow> Platform
     \<Rightarrow> thrown + ResolvedLibrary option" where
  "resolveLibrary_in LibraryInfo rx lib platform =
     (if lib_rules lib \<noteq> None \<and> \<not> checkAllowed rx (lib_rules lib) platform [] then Inr None
      else case natives lib of
        Some table \<Rightarrow>
          (case map_of table (pname platform) of
             None \<Rightarrow> Inr None
           | Some entry \<Rightarrow>
               if entry = [] then Inr None
               else
                 (let classifier = native_classifier entry platform;
                      nativeArtifact =
                        (case lib_downloads lib of
                           None \<Rightarrow> None
                         | Some d \<Rightarrow>
                             (case classifiers d of
                                None \<Rightarrow> None
                              | Some cs \<Rightarrow> map_of cs classifier))
                  in case LibraryInfo of
                       None \<Rightarrow> Inl (ReferenceError ''LibraryInfo is not defined'')
                     | Some res \<Rightarrow>
                         (case res (lib_name lib @ '':'' @ classifier) of
                            Inl e \<Rightarrow> Inl e
                          | Inr info \<Rightarrow>
                              (let art =
                                 (case nativeArtifact of
                                    Some a \<Rightarrow> a
                                  | None \<Rightarrow>
                                      \<lparr>a_path = path info,
                                       a_url = Some (''https://libraries.minecraft.net/'' @ path info),
                                       sha1 = Some [], a_size = - 1\<rparr>)
                               in Inr (Some (new_ResolvedLibrary
                                     (lib_name lib @ '':'' @ classifier) info art True
                                     None None None
                                     (case lib_extract lib of
                                        Some (Some ex) \<Rightarrow> Some ex
                                      | _ \<Rightarrow> None)))))))
      | None \<Rightarrow>
          (case LibraryInfo of
             None \<Rightarrow> Inl (ReferenceError ''LibraryInfo is not defined'')
           | Some res \<Rightarrow>
               (case res (lib_name lib) of
                  Inl e \<Rightarrow> Inl e
                | Inr info \<Rightarrow>
                    (case lib_downloads lib of
                       Some d \<Rightarrow>
                         (case artifact d of
                            None \<Rightarrow> Inl (CorruptedLibrary (lib_name lib))
                          | Some art \<Rightarrow>
                              (let art' =
                                 (if a_url art = None \<or> a_url art = Some []
                                  then art\<lparr>a_url := Some
                                    (if groupId info = ''net.minecraftforge''
                                     then ''https://files.minecraftforge.net/maven/'' @ a_path art
                                     else ''https://libraries.minecraft.net/'' @ a_path art)\<rparr>
                                  else art)
                               in if startsWith (classifier info) ''natives''
                                  then Inr (Some (new_ResolvedLibrary (name info) info art' True
                                         None None None None))
                                  else Inr (Some (new_ResolvedLibrary (lib_name lib) info art' False
                                         None None None None))))
                     | None \<Rightarrow>
                         (let maven =
                            (case lib_url lib of
                               None \<Rightarrow> ''https://libraries.minecraft.net/''
                             | Some u \<Rightarrow> if u \<noteq> [] then u else ''https://libraries.minecraft.net/'');
                              art = \<lparr>a_path = path info, a_url = Some (maven @ path info),
                                     sha1 = (case checksums lib of
                                               None \<Rightarrow> Some []
                                             | Some cs \<Rightarrow> (case cs of [] \<Rightarrow> None | c # _ \<Rightarrow> Some c)),
                                     a_size = - 1\<rparr>
                          in Inr (Some (new_ResolvedLibrary (lib_name lib) info art False
                                 (checksums lib) (serverreq lib) (clientreq lib) None)))))))"

definition LibraryInfo_binding :: "(string \<Rightarrow> thrown + LibraryInfo) option" where
  "LibraryInfo_binding = None"

definition resolveLibrary ::
  "regex_match \<Rightarrow> RawLibrary \<Rightarrow> Platform \<Rightarrow> thrown + ResolvedLibrary option" where
  "resolveLibrary = resolveLibrary_in LibraryInfo_binding"

text \<open>
  \<^verbatim>\<open>Version.resolveLibraries\<close> maps the \<^verbatim>\<open>async\<close> function \<^verbatim>\<open>resolveLibrary\<close> over the
  entries: the array holds one promise per entry, none of them \<^verbatim>\<open>undefined\<close>, so the
  filter keeps them all. A promise is modelled by what it settles to.
\<close>

definition resolveLibraries ::
  "regex_match \<Rightarrow> RawLibrary list \<Rightarrow> Platform \<Rightarrow> (thrown + ResolvedLibrary option) list" where
  "resolveLibraries rx libs platform = map (\<lambda>lib. resolveLibrary rx lib platform) libs"

section \<open>Manifests and their normalisation\<close>

text \<open>
  An argument element is a plain string or a conditional object with optional
  \<^verbatim>\<open>rules\<close> and a value that is a string or an array of strings. \<open>ManifestCommon\<close> holds
  the fields that a parsed manifest and a normalised one share (\<open>version_id\<close> is \<^verbatim>\<open>id\<close>,
  \<open>version_type\<close> is \<^verbatim>\<open>type\<close>, \<open>u_minecraftVersion\<close> is \<^verbatim>\<open>_minecraftVersion\<close>); \<^verbatim>\<open>logging\<close> is
  kept as opaque text. The parsed manifest adds the \<^verbatim>\<open>arguments\<close> and \<^verbatim>\<open>libraries\<close> of the JSON, the
  normalised one (\<open>VersionJson\<close>) what \<^verbatim>\<open>normalizeVersionJson\<close> puts in their place, and
  \<^verbatim>\<open>minecraftDirectory\<close> and \<^verbatim>\<open>replace\<close>. The \<^verbatim>\<open>libraries\<close> of a normalised manifest are an
  array of resolved libraries, as \<^verbatim>\<open>Version.resolve\<close> iterates them, or the pending result
  of \<^verbatim>\<open>resolveLibraries\<close>, which is what \<^verbatim>\<open>normalizeVersionJson\<close> stores (it does not await
  the \<^verbatim>\<open>async\<close> call).
\<close>

datatype ArgValue = Single string | Many "string list"

datatype Argument = Plain string | Conditional "Rule list option" ArgValue

record Arguments =
  jvm :: "Argument list"
  game :: "Argument list"

record RawArguments =
  raw_jvm :: "Argument list option"
  raw_game :: "Argument list option"

record JavaVersion =
  majorVersion :: nat
  component :: string

record AssetIndex =
  ai_id :: string
  ai_sha1 :: "string option"

record ManifestCommon =
  version_id :: string
  inheritsFrom :: "string option"
  version_type :: "string option"
  mainClass :: "string option"
  minecraftArguments :: "string option"
  downloads :: "(string \<times> Artifact) list option"
  assetIndex :: "AssetIndex option"
  assets :: "string option"
  logging :: "string option"
  javaVersion :: "JavaVersion option"
  minimumLauncherVersion :: "nat option"
  releaseTime :: "string option"
  time :: "string option"
  clientVersion :: "string option"
  u_minecraftVersion :: "string option"

record RawManifest = ManifestCommon +
  raw_arguments :: "RawArguments option"
  raw_libraries :: "RawLibrary list option"

datatype libraries_value =
    LibrariesArray "ResolvedLibrary list"
  | LibrariesPromise "(thrown + ResolvedLibrary option) list"

record VersionJson = ManifestCommon +
  libraries_field :: "libraries_value option"
  arguments :: Arguments
  minecraftDirectory :: string
  replace :: bool

text \<open>
  \<^verbatim>\<open>processArguments\<close>, the filter of \<^verbatim>\<open>normalizeVersionJson\<close>: an element is tested with
  \<^verbatim>\<open>checkAllowed(a.rules, platform)\<close> when it is an object whose rules all lack a
  \<^verbatim>\<open>features\<close> key, and is kept without a test otherwise (a string, an object without
  \<^verbatim>\<open>rules\<close>, an object with a rule that has \<^verbatim>\<open>features\<close>). Elements are strings or
  conditional objects and rules are objects, so the \<^verbatim>\<open>typeof r === 'string'\<close> alternative
  of the test does not arise.
\<close>

definition keeps_argument :: "regex_match \<Rightarrow> Platform \<Rightarrow> Argument \<Rightarrow> bool" where
  "keeps_argument rx platform a =
     (case a of
        Plain s \<Rightarrow> True
      | Conditional rules v \<Rightarrow>
          (case rules of
             None \<Rightarrow> True
           | Some rs \<Rightarrow>
               if list_all (\<lambda>r. features r = None) rs
               then checkAllowed rx (Some rs) platform []
               else True))"

definition processArguments :: "regex_match \<Rightarrow> Platform \<Rightarrow> Argument list \<Rightarrow> Argument list" where
  "processArguments rx platform ar = filter (keeps_argument rx platform) ar"

text \<open>The jvm arguments that a legacy manifest gets.\<close>

definition legacy_jvm :: "Argument list" where
  "legacy_jvm =
     [Conditional
        (Some [\<lparr>action = ''allow'',
                os = Some \<lparr>os_name = Some ''windows'', os_version = None, os_arch = None\<rparr>,
                features = None\<rparr>])
        (Single ''-XX:HeapDumpPath=MojangTricksIntelDriversForPerformance_javaw.exe_minecraft.exe.heapdump''),
      Conditional
        (Some [\<lparr>action = ''allow'',
                os = Some \<lparr>os_name = Some ''windows'',
                           os_version = Some (''^10'' @ [CHR 0x5C] @ ''.''), os_arch = None\<rparr>,
                features = None\<rparr>])
        (Many [''-Dos.name=Windows 10'', ''-Dos.version=10.0'']),
      Plain ''-Djava.library.path=${natives_directory}'',
      Plain ''-Dminecraft.launcher.brand=${launcher_name}'',
      Plain ''-Dminecraft.launcher.version=${launcher_version}'',
      Plain ''-cp'',
      Plain ''${classpath}'']"

text \<open>
  \<^verbatim>\<open>Version.normalizeVersionJson(versionString, root, platform)\<close>. \<^verbatim>\<open>JSON.parse\<close> is the
  parameter \<open>json_parse\<close>, \<open>None\<close> where it throws a \<^verbatim>\<open>SyntaxError\<close>. The result spreads
  the parsed manifest and sets \<^verbatim>\<open>libraries\<close>, \<^verbatim>\<open>arguments\<close>, \<^verbatim>\<open>minecraftDirectory\<close> and
  \<^verbatim>\<open>replace\<close>.
\<close>

definition normalizeVersionJson ::
  "(string \<Rightarrow> RawManifest option) \<Rightarrow> regex_match \<Rightarrow> string \<Rightarrow> string \<Rightarrow> Platform
     \<Rightarrow> thrown + VersionJson" where
  "normalizeVersionJson json_parse rx versionString rt platform =
     (case json_parse versionString of
        None \<Rightarrow> Inl (SyntaxError ''JSON.parse'')
      | Some parsed \<Rightarrow>
          (let legacyVersionJson = (raw_arguments parsed = None);
               libs = resolveLibraries rx
                        (case raw_libraries parsed of None \<Rightarrow> [] | Some ls \<Rightarrow> ls) platform;
               args =
                 (case raw_arguments parsed of
                    None \<Rightarrow>
                      \<lparr>jvm = legacy_jvm,
                       game = (case minecraftArguments parsed of
                                 None \<Rightarrow> []
                               | Some s \<Rightarrow> if s \<noteq> [] then map Plain (split_on CHR '' '' s) else [])\<rparr>
                  | Some ra \<Rightarrow>
                      \<lparr>jvm = (case raw_jvm ra of None \<Rightarrow> [] | Some j \<Rightarrow> j),
                       game = (case raw_game ra of None \<Rightarrow> [] | Some g \<Rightarrow> g)\<rparr>);
               args' = args\<lparr>jvm := processArguments rx platform (jvm args)\<rparr>
           in Inr \<lparr>version_id = version_id parsed, inheritsFrom = inheritsFrom parsed,
                   version_type = version_type parsed, mainClass = mainClass parsed,
                   minecraftArguments = minecraftArguments parsed,
                   downloads = downloads parsed, assetIndex = assetIndex parsed,
                   assets = assets parsed, logging = logging parsed,
                   javaVersion = javaVersion parsed,
                   minimumLauncherVersion = minimumLauncherVersion parsed,
                   releaseTime = releaseTime parsed, time = time parsed,
                   clientVersion = clientVersion parsed,
                   u_minecraftVersion = u_minecraftVersion parsed,
                   libraries_field = Some (LibrariesPromise libs), arguments = args',
                   minecraftDirectory = rt, replace = legacyVersionJson\<rparr>))"

section \<open>Merging an inheritance chain\<close>

text \<open>
  \<^verbatim>\<open>Version.resolve(minecraftPath, hierarchy)\<close>. The hierarchy is the stack of the
  dependency walk, the requested version first and the root last; the loop pops it
  from the end. \<open>merge_state\<close> holds the variables that the loop updates. A JavaScript
  object used as a map is an association list in insertion order: a new key goes to the
  end, an old one keeps its place (keys here are words, not array indices, which an
  engine would enumerate first).
\<close>

fun obj_set :: "(string \<times> 'a) list \<Rightarrow> string \<Rightarrow> 'a \<Rightarrow> (string \<times> 'a) list" where
  "obj_set [] k v = [(k, v)]"
| "obj_set ((k', v') # m) k v = (if k' = k then (k, v) # m else (k', v') # obj_set m k v)"

text \<open>\<^verbatim>\<open>x || y\<close> for an optional string and for an optional object.\<close>

definition str_or :: "string option \<Rightarrow> string \<Rightarrow> string" where
  "str_or x y = (case x of None \<Rightarrow> y | Some s \<Rightarrow> if s \<noteq> [] then s else y)"

definition obj_or :: "'a option \<Rightarrow> 'a option \<Rightarrow> 'a option" where
  "obj_or x y = (case x of None \<Rightarrow> y | Some v \<Rightarrow> Some v)"

record merge_state =
  m_assetIndex :: "AssetIndex option"
  m_assets :: string
  m_downloadsMap :: "(string \<times> Artifact) list"
  m_librariesMap :: "(string \<times> ResolvedLibrary) list"
  m_nativesMap :: "(string \<times> ResolvedLibrary) list"
  m_mainClass :: string
  m_args :: Arguments
  m_minimumLauncherVersion :: nat
  m_releaseTime :: string
  m_time :: string
  m_type :: string
  m_logging :: "string option"
  m_location :: "string option"
  m_javaVersion :: JavaVersion

definition add_library :: "ResolvedLibrary \<Rightarrow> merge_state \<Rightarrow> merge_state" where
  "add_library lib st =
     (let libOrgName0 = groupId lib @ '':'' @ js_str (artifactId lib);
          libOrgName = (if classifier lib \<noteq> [] then libOrgName0 @ ''-'' @ classifier lib @ '';''
                        else libOrgName0)
      in if isNative lib
         then st\<lparr>m_nativesMap := obj_set (m_nativesMap st) libOrgName lib\<rparr>
         else st\<lparr>m_librariesMap := obj_set (m_librariesMap st) libOrgName lib\<rparr>)"

definition add_downloads :: "VersionJson \<Rightarrow> merge_state \<Rightarrow> merge_state" where
  "add_downloads json st =
     (case downloads json of
        None \<Rightarrow> st
      | Some ds \<Rightarrow>
          st\<lparr>m_downloadsMap := fold (\<lambda>(key, a) m. obj_set m key a) ds (m_downloadsMap st)\<rparr>)"

text \<open>One iteration of the \<^verbatim>\<open>do ... while\<close> loop on the manifest just popped.\<close>

definition merge_step :: "merge_state \<Rightarrow> VersionJson \<Rightarrow> thrown + merge_state" where
  "merge_step st json =
     (let st1 = st\<lparr>
            m_minimumLauncherVersion :=
              max (case minimumLauncherVersion json of None \<Rightarrow> 0 | Some n \<Rightarrow> n)
                  (m_minimumLauncherVersion st),
            m_location := Some (minecraftDirectory json),
            m_args :=
              (if \<not> replace json
               then \<lparr>jvm = jvm (m_args st) @ jvm (arguments json),
                     game = game (m_args st) @ game (arguments json)\<rparr>
               else \<lparr>jvm = jvm (arguments json), game = game (arguments json)\<rparr>),
            m_releaseTime := str_or (releaseTime json) (m_releaseTime st),
            m_time := str_or (time json) (m_time st),
            m_logging := obj_or (logging json) (m_logging st),
            m_assets := str_or (assets json) (m_assets st),
            m_type := str_or (version_type json) (m_type st),
            m_mainClass := str_or (mainClass json) (m_mainClass st),
            m_assetIndex := obj_or (assetIndex json) (m_assetIndex st),
            m_javaVersion := (case javaVersion json of None \<Rightarrow> m_javaVersion st | Some j \<Rightarrow> j)\<rparr>
      in case libraries_field json of
           None \<Rightarrow> Inr (add_downloads json st1)
         | Some (LibrariesPromise ps) \<Rightarrow> Inl (TypeError ''json.libraries.forEach is not a function'')
         | Some (LibrariesArray libs) \<Rightarrow> Inr (add_downloads json (fold add_library libs st1)))"

fun merge_loop :: "merge_state \<Rightarrow> VersionJson list \<Rightarrow> thrown + merge_state" where
  "merge_loop st [] = Inr st"
| "merge_loop st (json # rest) =
     (case merge_step st json of Inl e \<Rightarrow> Inl e | Inr st' \<Rightarrow> merge_loop st' rest)"

record ResolvedVersion =
  rv_id :: string
  rv_assetIndex :: "AssetIndex option"
  rv_assets :: string
  rv_minecraftVersion :: string
  rv_inheritances :: "string list"
  rv_arguments :: Arguments
  rv_downloads :: "Artifact list"
  rv_libraries :: "ResolvedLibrary list"
  rv_mainClass :: string
  rv_minimumLauncherVersion :: nat
  rv_releaseTime :: string
  rv_time :: string
  rv_type :: string
  rv_logging :: "string option"
  rv_pathChain :: "string list"
  rv_minecraftDirectory :: "string option"
  rv_javaVersion :: JavaVersion

definition Version_resolve ::
  "joiner \<Rightarrow> heap \<Rightarrow> location \<Rightarrow> VersionJson list \<Rightarrow> thrown + ResolvedVersion" where
  "Version_resolve join h minecraftPath hierarchy =
     (case hierarchy of
        [] \<Rightarrow> Inl (TypeError ''hierarchy[0].id'')
      | child # _ \<Rightarrow>
          (let folder = folder_of h minecraftPath;
               rootVersion = last hierarchy;
               vid = version_id child;
               init = \<lparr>m_assetIndex = assetIndex rootVersion, m_assets = [],
                       m_downloadsMap = [], m_librariesMap = [], m_nativesMap = [],
                       m_mainClass = [], m_args = \<lparr>jvm = [], game = []\<rparr>,
                       m_minimumLauncherVersion = 0, m_releaseTime = [], m_time = [],
                       m_type = [], m_logging = None, m_location = None,
                       m_javaVersion = \<lparr>majorVersion = 8, component = ''jre-legacy''\<rparr>\<rparr>;
               minecraftVersion =
                 str_or (clientVersion rootVersion)
                   (str_or (u_minecraftVersion rootVersion) (version_id rootVersion));
               chains = map (\<lambda>j. getVersionRoot join folder (version_id j)) hierarchy;
               inheritances = map version_id hierarchy
           in case merge_loop init (rev hierarchy) of
                Inl e \<Rightarrow> Inl e
              | Inr st \<Rightarrow>
                  if m_mainClass st = [] then Inl (BadVersionJson vid ''MainClass'')
                  else Inr \<lparr>rv_id = vid, rv_assetIndex = m_assetIndex st, rv_assets = m_assets st,
                            rv_minecraftVersion = minecraftVersion,
                            rv_inheritances = inheritances, rv_arguments = m_args st,
                            rv_downloads = map snd (m_downloadsMap st),
                            rv_libraries = map snd (m_librariesMap st) @ map snd (m_nativesMap st),
                            rv_mainClass = m_mainClass st,
                            rv_minimumLauncherVersion = m_minimumLauncherVersion st,
                            rv_releaseTime = m_releaseTime st, rv_time = m_time st,
                            rv_type = m_type st, rv_logging = m_logging st,
                            rv_pathChain = chains, rv_minecraftDirectory = m_location st,
                            rv_javaVersion = m_javaVersion st\<rparr>))"

section \<open>The dependency walk and \<^verbatim>\<open>Version.parse\<close>\<close>

text \<open>
  \<^verbatim>\<open>Version.resolveDependency(path, version, platform)\<close> reads manifests with \<^verbatim>\<open>readFile\<close>,
  here a function from paths to file contents, \<open>None\<close> where reading fails. Its inner
  function \<^verbatim>\<open>walk\<close> normalises each manifest by calling \<^verbatim>\<open>this.normalizeVersionJson\<close>.
  What that property of \<^verbatim>\<open>this\<close> is when \<^verbatim>\<open>walk\<close> runs is the field \<open>this_normalize\<close> of
  the environment: \<open>None\<close> when \<^verbatim>\<open>this\<close> has no such method, and then the call throws a
  \<^verbatim>\<open>TypeError\<close> inside the \<^verbatim>\<open>try\<close> block, which rethrows whatever is not a \<^verbatim>\<open>SyntaxError\<close>.
  The walk may go on for as long as manifests name new parents, so it takes fuel and
  returns \<open>None\<close> when the fuel runs out.
\<close>

record walk_env =
  w_join :: joiner
  w_readFile :: "string \<Rightarrow> string option"
  this_normalize :: "(string \<Rightarrow> string \<Rightarrow> Platform \<Rightarrow> thrown + VersionJson) option"
  w_folder :: MinecraftFolder
  w_platform :: Platform
  w_version :: string

fun walk :: "nat \<Rightarrow> walk_env \<Rightarrow> VersionJson list \<Rightarrow> string \<Rightarrow> (thrown + VersionJson list) option" where
  "walk 0 env stack versionName = None"
| "walk (Suc n) env stack versionName =
     (let jsonPath = getVersionJson (w_join env) (w_folder env) versionName
      in case w_readFile env jsonPath of
           None \<Rightarrow> Some (Inl (MissingVersionJson versionName jsonPath))
         | Some contentString \<Rightarrow>
             (case (case this_normalize env of
                      None \<Rightarrow> Inl (TypeError ''this.normalizeVersionJson is not a function'')
                    | Some norm \<Rightarrow>
                        norm contentString (root (w_folder env)) (w_platform env)) of
                Inl e \<Rightarrow>
                  Some (Inl (case e of
                               SyntaxError m \<Rightarrow> CorruptedVersionJson versionName contentString
                             | _ \<Rightarrow> e))
              | Inr versionJson \<Rightarrow>
                  (let stack' = stack @ [versionJson]
                   in case inheritsFrom versionJson of
                        None \<Rightarrow> Some (Inr stack')
                      | Some nextVersion \<Rightarrow>
                          if nextVersion = [] then Some (Inr stack')
                          else if nextVersion \<in> set (map version_id stack')
                          then Some (Inl (CircularDependenciesError (w_version env)
                                            (map version_id stack' @ [nextVersion])))
                          else walk n env stack' nextVersion)))"

text \<open>
  \<open>resolveDependency_with\<close> is the function for a given binding of
  \<^verbatim>\<open>this.normalizeVersionJson\<close> inside \<^verbatim>\<open>walk\<close>. The source declares \<^verbatim>\<open>walk\<close> as a nested
  \<^verbatim>\<open>async function\<close> and calls it as \<^verbatim>\<open>walk(version)\<close> and \<^verbatim>\<open>walk(nextVersion)\<close>, without a
  receiver: \<^verbatim>\<open>this\<close> is not the \<^verbatim>\<open>Version\<close> object there, and it has no
  \<^verbatim>\<open>normalizeVersionJson\<close>. \<open>resolveDependency\<close> is the function as the source has it.
\<close>

definition resolveDependency_with ::
  "(string \<Rightarrow> string \<Rightarrow> Platform \<Rightarrow> thrown + VersionJson) option \<Rightarrow> nat \<Rightarrow> joiner
     \<Rightarrow> (string \<Rightarrow> string option) \<Rightarrow> heap \<Rightarrow> location \<Rightarrow> string \<Rightarrow> Platform
     \<Rightarrow> (thrown + VersionJson list) option" where
  "resolveDependency_with this_norm fuel join readFile h p ver platform =
     walk fuel \<lparr>w_join = join, w_readFile = readFile, this_normalize = this_norm,
                w_folder = folder_of h p, w_platform = platform, w_version = ver\<rparr> [] ver"

definition resolveDependency ::
  "nat \<Rightarrow> joiner \<Rightarrow> (string \<Rightarrow> string option) \<Rightarrow> heap \<Rightarrow> location \<Rightarrow> string \<Rightarrow> Platform
     \<Rightarrow> (thrown + VersionJson list) option" where
  "resolveDependency = resolveDependency_with None"

text \<open>
  \<^verbatim>\<open>Version.parse(minecraftPath, version, platform = getPlatform())\<close>. The default of
  \<^verbatim>\<open>platform\<close> is evaluated first, when the argument is missing (\<open>None\<close>); then the body
  calls \<^verbatim>\<open>resolveDependency(folder, version, platform)\<close> by its bare name and hands the
  hierarchy to \<^verbatim>\<open>this.resolve\<close>. \<open>Version_parse_in\<close> takes what the two identifiers are
  bound to in the module: for \<^verbatim>\<open>getPlatform\<close> the platform that calling it returns, \<open>None\<close>
  when it is not a function; for \<^verbatim>\<open>resolveDependency\<close> the function, \<open>None\<close> when the
  identifier is not declared. In the module \<^verbatim>\<open>getPlatform\<close> is destructured from
  \<^verbatim>\<open>require('./platform')\<close>, whose export is the function itself and has no property of
  that name, and \<^verbatim>\<open>resolveDependency\<close> exists only as a property of \<^verbatim>\<open>Version\<close>; these are
  \<open>getPlatform_binding\<close> and \<open>resolveDependency_binding\<close>, and \<open>Version_parse\<close> is the
  function as the module has it.
\<close>

definition Version_parse_in ::
  "Platform option \<Rightarrow> (heap \<Rightarrow> location \<Rightarrow> string \<Rightarrow> Platform \<Rightarrow> thrown + VersionJson list) option
     \<Rightarrow> joiner \<Rightarrow> heap \<Rightarrow> location \<Rightarrow> string \<Rightarrow> Platform option \<Rightarrow> thrown + ResolvedVersion" where
  "Version_parse_in getPlatform resolveDep join h minecraftPath ver platform_arg =
     (case (case platform_arg of None \<Rightarrow> getPlatform | Some p \<Rightarrow> Some p) of
        None \<Rightarrow> Inl (TypeError ''getPlatform is not a function'')
      | Some platform \<Rightarrow>
          (case MinecraftFolder_from h minecraftPath of
             (h1, folder) \<Rightarrow>
               (case resolveDep of
                  None \<Rightarrow> Inl (ReferenceError ''resolveDependency is not defined'')
                | Some rd \<Rightarrow>
                    (case rd h1 (LocInstance folder) ver platform of
                       Inl e \<Rightarrow> Inl e
                     | Inr hierarchy \<Rightarrow> Version_resolve join h1 minecraftPath hierarchy))))"

definition getPlatform_binding :: "Platform option" where
  "getPlatform_binding = None"

definition resolveDependency_binding ::
  "(heap \<Rightarrow> location \<Rightarrow> string \<Rightarrow> Platform \<Rightarrow> thrown + VersionJson list) option" where
  "resolveDependency_binding = None"

definition Version_parse ::
  "joiner \<Rightarrow> heap \<Rightarrow> location \<Rightarrow> string \<Rightarrow> Platform option \<Rightarrow> thrown + ResolvedVersion" where
  "Version_parse = Version_parse_in getPlatform_binding resolveDependency_binding"

section \<open>The diagnoser\<close>

text \<open>
  The file system is a record of what the checks read: whether a file exists, its
  digest (the default \<^verbatim>\<open>checksum\<close> of the utilities, by algorithm), its size from \<^verbatim>\<open>stat\<close>
  (\<open>None\<close> when \<^verbatim>\<open>stat\<close> fails) and the \<^verbatim>\<open>objects\<close> of an asset index file (read and parsed;
  \<open>Inl\<close> when either step throws). Every function returns, besides its result, the
  list of the reads it made, so that "no check was made" is the empty list. The
  library and asset checks run under \<^verbatim>\<open>Promise.all\<close>; their reads are listed in the order
  of the entries. The cancellation signal is sampled once for a run (\<open>aborted\<close>).
\<close>

record file_system =
  fs_exists :: "string \<Rightarrow> bool"
  fs_checksum :: "string \<Rightarrow> string \<Rightarrow> string"
  fs_stat_size :: "string \<Rightarrow> int option"
  fs_read_objects :: "string \<Rightarrow> thrown + (string \<times> string \<times> int) list"

datatype probe = Exists string | Checksum string | Stat string | ReadIndex string

record diagnose_options =
  strict :: bool
  aborted :: bool
  custom_checksum :: "(string \<Rightarrow> string \<Rightarrow> string) option"

datatype issue_subject =
    NoSubject
  | OfVersion string
  | OfLibrary ResolvedLibrary
  | OfAsset string string int

record Issue =
  issue_type :: string
  role :: string
  issue_file :: string
  expectedChecksum :: "string option"
  receivedChecksum :: string
  hint :: string
  subject :: issue_subject

record Report =
  minecraftLocation :: nat
  report_version :: string
  issues :: "Issue list"

text \<open>\<^verbatim>\<open>diagnoseFile\<close>; every caller leaves the algorithm out, so it is \<^verbatim>\<open>sha1\<close>.\<close>

definition diagnoseFile ::
  "file_system \<Rightarrow> string \<Rightarrow> string option \<Rightarrow> string \<Rightarrow> string \<Rightarrow> diagnose_options option
     \<Rightarrow> probe list \<times> Issue option" where
  "diagnoseFile fs f expected rl hnt options =
     (let checksumFunc =
            (case options of
               None \<Rightarrow> fs_checksum fs
             | Some opts \<Rightarrow> (case custom_checksum opts of None \<Rightarrow> fs_checksum fs | Some c \<Rightarrow> c));
          signal_aborted = (case options of None \<Rightarrow> False | Some opts \<Rightarrow> aborted opts);
          fileExisted = fs_exists fs f
      in if signal_aborted then ([Exists f], None)
         else if \<not> fileExisted
         then ([Exists f],
               Some \<lparr>issue_type = ''missing'', role = rl, issue_file = f, expectedChecksum = expected,
                     receivedChecksum = [], hint = hnt, subject = NoSubject\<rparr>)
         else if expected \<noteq> Some []
         then (let received = checksumFunc f ''sha1''
               in ([Exists f, Checksum f],
                   if Some received \<noteq> expected
                   then Some \<lparr>issue_type = ''corrupted'', role = rl, issue_file = f,
                              expectedChecksum = expected, receivedChecksum = received,
                              hint = hnt, subject = NoSubject\<rparr>
                   else None))
         else ([Exists f], None))"

text \<open>
  Reading a property of an array by name, as \<^verbatim>\<open>resolvedVersion.downloads.client\<close> does: a
  name that is a canonical array index below the length gives that element; any other
  name gives nothing that is an element.
\<close>

definition array_index :: "string \<Rightarrow> nat option" where
  "array_index key =
     (if key = [] \<or> \<not> list_all (\<lambda>c. (48::nat) \<le> of_char c \<and> of_char c \<le> (57::nat)) key
         \<or> (1 < length key \<and> hd key = CHR ''0'')
      then None
      else Some (foldl (\<lambda>n c. 10 * n + (of_char c - 48)) 0 key))"

definition js_array_get :: "'a list \<Rightarrow> string \<Rightarrow> 'a option" where
  "js_array_get xs key =
     (case array_index key of
        None \<Rightarrow> None
      | Some i \<Rightarrow> if i < length xs then Some (xs ! i) else None)"

text \<open>The checksum that \<^verbatim>\<open>diagnoseJar\<close> expects:
  \<^verbatim>\<open>resolvedVersion.downloads.client?.sha1 || ''\<close>.\<close>

definition jar_expected_checksum :: "ResolvedVersion \<Rightarrow> string" where
  "jar_expected_checksum rv =
     (case js_array_get (rv_downloads rv) ''client'' of
        None \<Rightarrow> []
      | Some a \<Rightarrow> str_or (sha1 a) [])"

definition with_subject :: "issue_subject \<Rightarrow> Issue option \<Rightarrow> Issue option" where
  "with_subject s i = map_option (\<lambda>x. x\<lparr>subject := s\<rparr>) i"

definition diagnoseJar ::
  "joiner \<Rightarrow> file_system \<Rightarrow> ResolvedVersion \<Rightarrow> MinecraftFolder \<Rightarrow> probe list \<times> Issue option" where
  "diagnoseJar join fs rv minecraft =
     (case diagnoseFile fs (getVersionJar join minecraft (rv_minecraftVersion rv))
             (Some (jar_expected_checksum rv)) ''minecraftJar''
             ''Problem on Minecraft jar! Please consider to use Installer.instalVersion to fix.''
             None of
        (ps, i) \<Rightarrow> (ps, with_subject (OfVersion (rv_minecraftVersion rv)) i))"

definition diagnoseAssetIndex ::
  "joiner \<Rightarrow> file_system \<Rightarrow> ResolvedVersion \<Rightarrow> MinecraftFolder \<Rightarrow> probe list \<times> Issue option" where
  "diagnoseAssetIndex join fs rv minecraft =
     (case diagnoseFile fs (getAssetsIndex join minecraft (rv_assets rv))
             (Some (case rv_assetIndex rv of None \<Rightarrow> [] | Some ai \<Rightarrow> str_or (ai_sha1 ai) []))
             ''assetIndex''
             ''Problem on assets index file! Please consider to use Installer.installAssets to fix.''
             None of
        (ps, i) \<Rightarrow> (ps, with_subject (OfVersion (rv_minecraftVersion rv)) i))"

definition is_strict :: "diagnose_options option \<Rightarrow> bool" where
  "is_strict options = (case options of None \<Rightarrow> False | Some opts \<Rightarrow> strict opts)"

definition is_aborted :: "diagnose_options option \<Rightarrow> bool" where
  "is_aborted options = (case options of None \<Rightarrow> False | Some opts \<Rightarrow> aborted opts)"

definition stat_size :: "file_system \<Rightarrow> string \<Rightarrow> int" where
  "stat_size fs f = (case fs_stat_size fs f of None \<Rightarrow> - 1 | Some n \<Rightarrow> n)"

text \<open>The check of one library, the callback of \<^verbatim>\<open>diagnoseLibraries\<close>.\<close>

definition diagnoseLibrary ::
  "joiner \<Rightarrow> file_system \<Rightarrow> MinecraftFolder \<Rightarrow> diagnose_options option \<Rightarrow> ResolvedLibrary
     \<Rightarrow> probe list \<times> (thrown + Issue option)" where
  "diagnoseLibrary join fs minecraft options lib =
     (if a_path (download lib) = []
      then ([], Inl (TypeError ''Cannot diagnose library without path!''))
      else
        (let libPath = getLibraryByPath join minecraft (a_path (download lib));
             hnt = ''Problem on library! Please consider to use Installer.installLibraries to fix.''
         in if \<not> is_strict options
            then (case diagnoseFile fs libPath (sha1 (download lib)) ''library'' hnt options of
                    (ps, i) \<Rightarrow> (ps, Inr (with_subject (OfLibrary lib) i)))
            else if is_aborted options then ([Stat libPath], Inr None)
            else if a_size (download lib) \<noteq> - 1 \<and> stat_size fs libPath \<noteq> a_size (download lib)
            then (case diagnoseFile fs libPath (sha1 (download lib)) ''library'' hnt options of
                    (ps, i) \<Rightarrow> (Stat libPath # ps, Inr (with_subject (OfLibrary lib) i)))
            else ([Stat libPath], Inr None)))"

text \<open>\<^verbatim>\<open>Promise.all\<close> over the callbacks: every callback runs; the result is the first
  rejection, or the issues that are not \<^verbatim>\<open>undefined\<close>.\<close>

fun gather :: "(probe list \<times> (thrown + Issue option)) list \<Rightarrow> probe list \<times> (thrown + Issue list)" where
  "gather [] = ([], Inr [])"
| "gather ((ps, r) # rest) =
     (case gather rest of
        (qs, rs) \<Rightarrow>
          (ps @ qs,
           case r of
             Inl e \<Rightarrow> Inl e
           | Inr i \<Rightarrow>
               (case rs of
                  Inl e \<Rightarrow> Inl e
                | Inr others \<Rightarrow> Inr (case i of None \<Rightarrow> others | Some x \<Rightarrow> x # others))))"

definition diagnoseLibraries ::
  "joiner \<Rightarrow> file_system \<Rightarrow> ResolvedVersion \<Rightarrow> MinecraftFolder \<Rightarrow> diagnose_options option
     \<Rightarrow> probe list \<times> (thrown + Issue list)" where
  "diagnoseLibraries join fs rv minecraft options =
     gather (map (diagnoseLibrary join fs minecraft options) (rv_libraries rv))"

definition diagnoseAsset ::
  "joiner \<Rightarrow> file_system \<Rightarrow> MinecraftFolder \<Rightarrow> diagnose_options option
     \<Rightarrow> string \<times> string \<times> int \<Rightarrow> probe list \<times> (thrown + Issue option)" where
  "diagnoseAsset join fs minecraft options entry =
     (case entry of
        (filename, hash, sz) \<Rightarrow>
          (let assetPath = getAsset join minecraft hash;
               hnt = ''Problem on asset! Please consider to use Installer.installAssets to fix.''
           in if is_strict options
              then (case diagnoseFile fs assetPath (Some hash) ''asset'' hnt options of
                      (ps, i) \<Rightarrow> (ps, Inr (with_subject (OfAsset filename hash sz) i)))
              else if is_aborted options then ([Stat assetPath], Inr None)
              else if stat_size fs assetPath \<noteq> sz
              then (case diagnoseFile fs assetPath (Some hash) ''asset'' hnt options of
                      (ps, i) \<Rightarrow> (Stat assetPath # ps, Inr (with_subject (OfAsset filename hash sz) i)))
              else ([Stat assetPath], Inr None)))"

definition diagnoseAssets ::
  "joiner \<Rightarrow> file_system \<Rightarrow> (string \<times> string \<times> int) list \<Rightarrow> MinecraftFolder
     \<Rightarrow> diagnose_options option \<Rightarrow> probe list \<times> (thrown + Issue list)" where
  "diagnoseAssets join fs assetObjects minecraft options =
     gather (map (diagnoseAsset join fs minecraft options) assetObjects)"

text \<open>The issue that the \<^verbatim>\<open>catch\<close> block of \<^verbatim>\<open>diagnose\<close> pushes.\<close>

definition versionJson_issue :: "string \<Rightarrow> string \<Rightarrow> Issue" where
  "versionJson_issue ty f =
     \<lparr>issue_type = ty, role = ''versionJson'', issue_file = f, expectedChecksum = Some [],
      receivedChecksum = [], hint = ''Re-install the minecraft!'', subject = NoSubject\<rparr>"

text \<open>
  \<^verbatim>\<open>diagnose\<close> from the point where \<^verbatim>\<open>Version.parse\<close> has settled, with its outcome as the
  last argument: the \<^verbatim>\<open>catch\<close> block for a rejection, the four checks for a resolved
  version. \<open>m\<close> is the address of the folder instance \<open>minecraft\<close>.
\<close>

definition diagnose_after ::
  "joiner \<Rightarrow> file_system \<Rightarrow> MinecraftFolder \<Rightarrow> nat \<Rightarrow> string \<Rightarrow> diagnose_options option
     \<Rightarrow> thrown + ResolvedVersion \<Rightarrow> probe list \<times> (thrown + Report)" where
  "diagnose_after join fs minecraft m ver options parsed =
     (case parsed of
        Inl e \<Rightarrow>
          (case getVersionJson_of join minecraft (err_version e) of
             Inl t \<Rightarrow> ([], Inl t)
           | Inr f \<Rightarrow>
               ([], Inr \<lparr>minecraftLocation = m, report_version = ver,
                         issues = [versionJson_issue
                                     (if err_error e = Some ''CorruptedVersionJson''
                                      then ''corrupted'' else ''missing'') f]\<rparr>))
      | Inr resolvedVersion \<Rightarrow>
          (case diagnoseJar join fs resolvedVersion minecraft of
             (p1, jarIssue) \<Rightarrow>
               (case diagnoseAssetIndex join fs resolvedVersion minecraft of
                  (p2, assetIndexIssue) \<Rightarrow>
                    (case diagnoseLibraries join fs resolvedVersion minecraft options of
                       (p3, Inl e) \<Rightarrow> (p1 @ p2 @ p3, Inl e)
                     | (p3, Inr librariesIssues) \<Rightarrow>
                         (let found = (case jarIssue of None \<Rightarrow> [] | Some i \<Rightarrow> [i])
                                      @ (case assetIndexIssue of None \<Rightarrow> [] | Some i \<Rightarrow> [i])
                                      @ librariesIssues
                          in if assetIndexIssue \<noteq> None
                             then (p1 @ p2 @ p3,
                                   Inr \<lparr>minecraftLocation = m, report_version = ver,
                                        issues = found\<rparr>)
                             else
                               (let idx = getAssetsIndex join minecraft (rv_assets resolvedVersion)
                                in case fs_read_objects fs idx of
                                     Inl e \<Rightarrow> (p1 @ p2 @ p3 @ [ReadIndex idx], Inl e)
                                   | Inr objects \<Rightarrow>
                                       (case diagnoseAssets join fs objects minecraft options of
                                          (p4, Inl e) \<Rightarrow>
                                            (p1 @ p2 @ p3 @ [ReadIndex idx] @ p4, Inl e)
                                        | (p4, Inr assetsIssues) \<Rightarrow>
                                            (p1 @ p2 @ p3 @ [ReadIndex idx] @ p4,
                                             Inr \<lparr>minecraftLocation = m, report_version = ver,
                                                  issues = found @ assetsIssues\<rparr>))))))))"

text \<open>\<^verbatim>\<open>diagnose(version, minecraftLocation, options)\<close>: it calls
  \<^verbatim>\<open>Version.parse(minecraft, version)\<close> with two arguments.\<close>

definition diagnose ::
  "joiner \<Rightarrow> file_system \<Rightarrow> heap \<Rightarrow> string \<Rightarrow> location \<Rightarrow> diagnose_options option
     \<Rightarrow> probe list \<times> (thrown + Report)" where
  "diagnose join fs h ver loc options =
     (case MinecraftFolder_from h loc of
        (h1, m) \<Rightarrow>
          diagnose_after join fs (h1 ! m) m ver options
            (Version_parse join h1 (LocInstance m) ver None))"

section \<open>Reading the claims: auxiliary notions and sample data\<close>

text \<open>A manifest defines its main class when the field is present and not empty.\<close>

definition defines_mainClass :: "VersionJson \<Rightarrow> bool" where
  "defines_mainClass j = (case mainClass j of None \<Rightarrow> False | Some m \<Rightarrow> m \<noteq> [])"

definition mainClass_of :: "VersionJson \<Rightarrow> string" where
  "mainClass_of j = (case mainClass j of None \<Rightarrow> [] | Some m \<Rightarrow> m)"

text \<open>The \<^verbatim>\<open>libraries\<close> of a normalised manifest are missing or an array, so that
  \<^verbatim>\<open>Version.resolve\<close> can iterate them.\<close>

definition libraries_iterable :: "VersionJson \<Rightarrow> bool" where
  "libraries_iterable j = (case libraries_field j of Some (LibrariesPromise ps) \<Rightarrow> False | _ \<Rightarrow> True)"

text \<open>
  Sample normalised manifests: a builder that leaves the fields beside the point empty,
  a vanilla root with a client download and a child that inherits from it.
\<close>

definition sample_version ::
  "string \<Rightarrow> string option \<Rightarrow> string option \<Rightarrow> Arguments \<Rightarrow> bool
     \<Rightarrow> (string \<times> Artifact) list option \<Rightarrow> VersionJson" where
  "sample_version vid parent mc args legacy dls =
     \<lparr>version_id = vid, inheritsFrom = parent, version_type = Some ''release'',
      mainClass = mc, minecraftArguments = None, downloads = dls, assetIndex = None,
      assets = None, logging = None, javaVersion = None, minimumLauncherVersion = None,
      releaseTime = None, time = None, clientVersion = None, u_minecraftVersion = None,
      libraries_field = Some (LibrariesArray []), arguments = args,
      minecraftDirectory = ''/mc'', replace = legacy\<rparr>"

definition forge_child :: VersionJson where
  "forge_child = sample_version ''1.20.1-forge'' (Some ''1.20.1'') (Some ''cpw.mods.bootstraplauncher.BootstrapLauncher'')
      \<lparr>jvm = [Plain ''-DignoreList=forge''], game = [Plain ''--launchTarget'', Plain ''forgeclient'']\<rparr> False None"

definition vanilla_parent :: VersionJson where
  "vanilla_parent = sample_version ''1.20.1'' None (Some ''net.minecraft.client.main.Main'')
      \<lparr>jvm = [Plain ''-cp'', Plain ''${classpath}''], game = [Plain ''--username'', Plain ''${auth_player_name}'']\<rparr> False
      (Some [(''client'', \<lparr>a_path = ''client.jar'', a_url = Some ''https://example.invalid/client.jar'',
                sha1 = Some ''0c3ec587af28e5a785c0b4a7b8a30f9a8f78f838'', a_size = 23028853\<rparr>)])"

text \<open>
  Claim C5 speaks of what normalisation does to the jvm list. \<open>source_jvm\<close> is the list
  that goes into the filter (the manifest's own, or the legacy list), \<open>normalized_jvm\<close>
  the \<^verbatim>\<open>arguments.jvm\<close> of the normalised manifest. \<open>kept_by_spec\<close> is the rule of the
  specification: strings stay, a conditional object with a feature predicate goes, an
  OS-only one stays when rule evaluation allows it. \<open>kept_at_normalisation\<close> differs in
  the one place: a conditional object with a feature predicate stays.
\<close>

definition has_feature_predicate :: "Rule list \<Rightarrow> bool" where
  "has_feature_predicate rs = list_ex (\<lambda>r. features r \<noteq> None) rs"

definition kept_by_spec :: "regex_match \<Rightarrow> Platform \<Rightarrow> Argument \<Rightarrow> bool" where
  "kept_by_spec rx platform a =
     (case a of
        Plain s \<Rightarrow> True
      | Conditional rules v \<Rightarrow>
          (case rules of
             None \<Rightarrow> True
           | Some rs \<Rightarrow> \<not> has_feature_predicate rs \<and> checkAllowed rx (Some rs) platform []))"

definition kept_at_normalisation :: "regex_match \<Rightarrow> Platform \<Rightarrow> Argument \<Rightarrow> bool" where
  "kept_at_normalisation rx platform a =
     (case a of
        Plain s \<Rightarrow> True
      | Conditional rules v \<Rightarrow>
          (case rules of
             None \<Rightarrow> True
           | Some rs \<Rightarrow> has_feature_predicate rs \<or> checkAllowed rx (Some rs) platform []))"

definition source_jvm :: "RawManifest \<Rightarrow> Argument list" where
  "source_jvm parsed =
     (case raw_arguments parsed of
        None \<Rightarrow> legacy_jvm
      | Some ra \<Rightarrow> (case raw_jvm ra of None \<Rightarrow> [] | Some j \<Rightarrow> j))"

definition normalized_jvm ::
  "(string \<Rightarrow> RawManifest option) \<Rightarrow> regex_match \<Rightarrow> string \<Rightarrow> string \<Rightarrow> Platform
     \<Rightarrow> thrown + Argument list" where
  "normalized_jvm json_parse rx versionString rt platform =
     map_sum id (\<lambda>v. jvm (arguments v)) (normalizeVersionJson json_parse rx versionString rt platform)"

text \<open>
  Normalising a child and its parent and resolving the hierarchy of the two:
  \<^verbatim>\<open>Version.resolve(root, [Version.normalizeVersionJson(childText, root, platform),
  Version.normalizeVersionJson(parentText, root, platform)])\<close>. The dependency walk pushes
  each result of \<^verbatim>\<open>normalizeVersionJson\<close> on the hierarchy, child first, and \<^verbatim>\<open>Version.parse\<close>
  hands that hierarchy to \<^verbatim>\<open>Version.resolve\<close>.
\<close>

definition resolve_texts ::
  "(string \<Rightarrow> RawManifest option) \<Rightarrow> regex_match \<Rightarrow> joiner \<Rightarrow> heap \<Rightarrow> string \<Rightarrow> Platform
     \<Rightarrow> string \<Rightarrow> string \<Rightarrow> thrown + ResolvedVersion" where
  "resolve_texts json_parse rx join h rt platform childText parentText =
     (case normalizeVersionJson json_parse rx childText rt platform of
        Inl e \<Rightarrow> Inl e
      | Inr C \<Rightarrow>
          (case normalizeVersionJson json_parse rx parentText rt platform of
             Inl e \<Rightarrow> Inl e
           | Inr P \<Rightarrow> Version_resolve join h (LocString rt) [C, P]))"

text \<open>
  Sample parsed manifests and platforms. \<open>parse_as m\<close> is a \<^verbatim>\<open>JSON.parse\<close> that reads the
  manifest \<open>m\<close> out of any text; \<open>cycle_files\<close> and \<open>cycle_parse\<close> are a folder in which
  version A inherits from B and B from A; \<open>chain_parse\<close> reads a Forge child and its
  vanilla parent, both with modern arguments; \<open>twitch_platform\<close> is a library entry with
  a natives table.
\<close>

definition sample_raw :: "string \<Rightarrow> string option \<Rightarrow> string option \<Rightarrow> RawArguments option \<Rightarrow> RawManifest" where
  "sample_raw vid parent mc args =
     \<lparr>version_id = vid, inheritsFrom = parent, version_type = Some ''release'',
      mainClass = mc, minecraftArguments = None, downloads = None, assetIndex = None,
      assets = None, logging = None, javaVersion = None, minimumLauncherVersion = None,
      releaseTime = None, time = None, clientVersion = None, u_minecraftVersion = None,
      raw_arguments = args, raw_libraries = None\<rparr>"

definition demo_argument :: Argument where
  "demo_argument =
     Conditional (Some [\<lparr>action = ''allow'', os = None, features = Some [(''is_demo_user'', True)]\<rparr>])
       (Single ''--demo'')"

definition osx_argument :: Argument where
  "osx_argument =
     Conditional (Some [\<lparr>action = ''allow'',
                         os = Some \<lparr>os_name = Some ''osx'', os_version = None, os_arch = None\<rparr>,
                         features = None\<rparr>])
       (Single ''-XstartOnFirstThread'')"

definition demo_manifest :: RawManifest where
  "demo_manifest = sample_raw ''1.20.1'' None (Some ''net.minecraft.client.main.Main'')
     (Some \<lparr>raw_jvm = Some [demo_argument, osx_argument, Plain ''-cp''], raw_game = Some []\<rparr>)"

definition parse_as :: "RawManifest \<Rightarrow> string \<Rightarrow> RawManifest option" where
  "parse_as m s = Some m"

definition linux_x64 :: Platform where
  "linux_x64 = \<lparr>pname = ''linux'', pversion = ''6.1.0'', parch = ''x64''\<rparr>"

definition windows_arm64 :: Platform where
  "windows_arm64 = \<lparr>pname = ''windows'', pversion = ''10.0.22621'', parch = ''arm64''\<rparr>"

definition windows_x64 :: Platform where
  "windows_x64 = \<lparr>pname = ''windows'', pversion = ''10.0.22621'', parch = ''x64''\<rparr>"

definition cycle_files :: "string \<Rightarrow> string option" where
  "cycle_files = map_of [(''/mc/versions/A/A.json'', ''{A}''), (''/mc/versions/B/B.json'', ''{B}'')]"

definition cycle_parse :: "string \<Rightarrow> RawManifest option" where
  "cycle_parse s =
     (if s = ''{A}'' then Some (sample_raw ''A'' (Some ''B'') (Some ''Main'') None)
      else if s = ''{B}'' then Some (sample_raw ''B'' (Some ''A'') None None)
      else None)"

definition forge_raw :: RawManifest where
  "forge_raw = sample_raw ''1.20.1-forge'' (Some ''1.20.1'')
     (Some ''cpw.mods.bootstraplauncher.BootstrapLauncher'')
     (Some \<lparr>raw_jvm = Some [Plain ''-DignoreList=forge''],
            raw_game = Some [Plain ''--launchTarget'', Plain ''forgeclient'']\<rparr>)"

definition vanilla_raw :: RawManifest where
  "vanilla_raw = sample_raw ''1.20.1'' None (Some ''net.minecraft.client.main.Main'')
     (Some \<lparr>raw_jvm = Some [Plain ''-cp'', Plain ''${classpath}''],
            raw_game = Some [Plain ''--username'', Plain ''${auth_player_name}'']\<rparr>)"

definition chain_parse :: "string \<Rightarrow> RawManifest option" where
  "chain_parse s =
     (if s = ''{forge}'' then Some forge_raw
      else if s = ''{vanilla}'' then Some vanilla_raw
      else None)"

definition twitch_platform :: RawLibrary where
  "twitch_platform =
     \<lparr>lib_name = ''tv.twitch:twitch-platform:5.16'', lib_rules = None,
      natives = Some [(''linux'', ''natives-linux''), (''osx'', ''natives-osx''),
                      (''windows'', ''natives-windows-${arch}'')],
      lib_downloads = None, lib_extract = Some (Some [''META-INF/'']), lib_url = None,
      checksums = None, serverreq = None, clientreq = None\<rparr>"

text \<open>A template in pieces; a rule for the \<^verbatim>\<open>x86\<close> architecture whose \<^verbatim>\<open>os\<close> clause has no
  name; and three rules: allow; disallow on \<^verbatim>\<open>osx\<close> with a version that holds \<^verbatim>\<open>10.5\<close>; allow
  for demo users.\<close>

definition brand_template :: "piece list" where
  "brand_template =
     [Lit ''-Dname='', Placeholder ''launcher_name'', Lit '' -Dcost=$5{} -cp '',
      Placeholder ''classpath'', Lit '' '', Placeholder ''unknown'', Lit '' '',
      Placeholder ''constructor'']"

definition x86_only_rule :: Rule where
  "x86_only_rule =
     \<lparr>action = ''allow'',
      os = Some \<lparr>os_name = None, os_version = None, os_arch = Some ''x86''\<rparr>,
      features = None\<rparr>"

definition three_rules :: "Rule list" where
  "three_rules =
     [\<lparr>action = ''allow'', os = None, features = None\<rparr>,
      \<lparr>action = ''disallow'',
       os = Some \<lparr>os_name = Some ''osx'', os_version = Some ''10.5'', os_arch = None\<rparr>,
       features = None\<rparr>,
      \<lparr>action = ''allow'', os = None, features = Some [(''is_demo_user'', True)]\<rparr>]"

section \<open>Coordinates: the round trip\<close>

lemma split_on_nonempty: "split_on c s \<noteq> []"
  by (induction s) (auto split: list.splits)

lemma split_on_notin: "c \<notin> set s \<Longrightarrow> split_on c s = [s]"
  by (induction s) auto

lemma split_on_append: "split_on c (s @ c # t) = split_on c s @ split_on c t"
  by (induction s) (auto split: list.splits simp: split_on_nonempty)

lemma join_with_Cons: "ys \<noteq> [] \<Longrightarrow> join_with sep (x # ys) = x @ sep @ join_with sep ys"
  by (cases ys) auto

lemma join_split_dots:
  "CHR ''/'' \<notin> set g \<Longrightarrow> join_with ''.'' (split_on CHR ''/'' (dots_to_slashes g)) = g"
proof (induction g)
  case Nil
  then show ?case by (simp add: dots_to_slashes_def)
next
  case (Cons x xs)
  then have IH: "join_with ''.'' (split_on CHR ''/'' (dots_to_slashes xs)) = xs" by simp
  obtain y ys where s: "split_on CHR ''/'' (dots_to_slashes xs) = y # ys"
    using split_on_nonempty by (cases "split_on CHR ''/'' (dots_to_slashes xs)") auto
  show ?case
  proof (cases "x = CHR ''.''")
    case True
    then show ?thesis using IH s by (simp add: dots_to_slashes_def)
  next
    case False
    with Cons.prems have "x \<noteq> CHR ''/''" by auto
    with False show ?thesis using IH s
      by (cases ys) (auto simp add: dots_to_slashes_def)
  qed
qed

lemma takeWhile_rev_dot:
  "CHR ''.'' \<notin> set t \<Longrightarrow> takeWhile (\<lambda>c. c \<noteq> CHR ''.'') (rev t @ CHR ''.'' # r) = rev t"
  by (induction t rule: rev_induct) auto

lemma extname_dot:
  assumes "CHR ''.'' \<notin> set t" "b \<noteq> []" "b \<noteq> ''.''"
  shows "extname (b @ ''.'' @ t) = ''.'' @ t"
proof -
  have 1: "takeWhile (\<lambda>c. c \<noteq> CHR ''.'') (rev (b @ ''.'' @ t)) = rev t"
    using takeWhile_rev_dot[OF assms(1), of "rev b"] by simp
  have 2: "b @ ''.'' @ t \<noteq> ''..''"
  proof
    assume e: "b @ ''.'' @ t = ''..''"
    then have "length (b @ ''.'' @ t) = 2" by simp
    with assms(2) have "t = []" by (cases b; cases t) auto
    with e assms(3) show False by simp
  qed
  show ?thesis
    unfolding extname_def Let_def 1 using assms(2) 2 by simp
qed

lemma split_path:
  assumes "CHR ''/'' \<notin> set a" "CHR ''/'' \<notin> set v" "CHR ''/'' \<notin> set f"
  shows "split_on CHR ''/'' (gp @ ''/'' @ a @ ''/'' @ v @ ''/'' @ f) = split_on CHR ''/'' gp @ [a, v, f]"
  using assms by (simp add: split_on_append split_on_notin)

lemma tail_parts:
  "last (G @ [a, v, f]) = f"
  "(G @ [a, v, f]) ! (length (G @ [a, v, f]) - 2) = v"
  "(G @ [a, v, f]) ! (length (G @ [a, v, f]) - 3) = a"
  "slice0 (G @ [a, v, f]) (int (length (G @ [a, v, f])) - 3) = G"
  by (simp_all add: nth_append slice0_def Let_def)

lemma substring_mid: "substring (p @ m @ e) (length p) (length (p @ m @ e) - length e) = m"
  by (simp add: substring_def Let_def)

lemma split_on_two: "c \<notin> set s \<Longrightarrow> c \<notin> set t \<Longrightarrow> split_on c (s @ c # t) = [s, t]"
  by (simp add: split_on_append split_on_notin)

lemma resolve_of_parts:
  assumes "split_on CHR ''@'' nm = body # ts" "split_on CHR '':'' body = g # a # v # rest"
  shows "resolve nm =
     Inr \<lparr>li_type = (case ts of [] \<Rightarrow> ''jar'' | t # _ \<Rightarrow> t), groupId = g,
          artifactId = Some a, version = Some v,
          classifier = (case rest of [] \<Rightarrow> [] | c # _ \<Rightarrow> c), name = nm,
          path = dots_to_slashes g @ ''/'' @ a @ ''/'' @ v @ ''/'' @ a @ ''-'' @ v
            @ (case rest of [] \<Rightarrow> [] | c # _ \<Rightarrow> if c \<noteq> [] then ''-'' @ c else [])
            @ ''.'' @ (case ts of [] \<Rightarrow> ''jar'' | t # _ \<Rightarrow> t),
          isSnapshot = endsWith v ''-SNAPSHOT''\<rparr>"
  using assms by (simp add: resolve_def Let_def split: list.splits)

lemma resolve_coordinate:
  assumes "plain g" "plain a" "plain v"
    and "\<forall>c. cl = Some c \<longrightarrow> c \<noteq> [] \<and> plain c"
    and "\<forall>y. t = Some y \<longrightarrow> CHR ''@'' \<notin> set y"
  shows "resolve_path (coordinate g a v cl t) = Inr (canonical_path g a v cl t)"
proof -
  let ?body = "g @ '':'' @ a @ '':'' @ v @ (case cl of None \<Rightarrow> [] | Some c \<Rightarrow> '':'' @ c)"
  have noat: "CHR ''@'' \<notin> set ?body"
    using assms by (auto simp: plain_def split: option.splits)
  have at: "split_on CHR ''@'' (coordinate g a v cl t)
      = ?body # (case t of None \<Rightarrow> [] | Some y \<Rightarrow> [y])"
  proof (cases t)
    case None
    then show ?thesis using noat by (simp add: coordinate_def split_on_notin)
  next
    case (Some y)
    with assms(5) have "CHR ''@'' \<notin> set y" by simp
    then have "split_on CHR ''@'' (?body @ CHR ''@'' # y) = [?body, y]"
      by (rule split_on_two[OF noat])
    then show ?thesis using Some by (simp add: coordinate_def)
  qed
  have colon: "split_on CHR '':'' ?body = g # a # v # (case cl of None \<Rightarrow> [] | Some c \<Rightarrow> [c])"
    using assms by (auto simp: plain_def split_on_append split_on_notin split: option.splits)
  show ?thesis
    unfolding resolve_path_def resolve_of_parts[OF at colon]
    using assms(4) by (auto simp: canonical_path_def split: option.splits)
qed

lemma startsWith_append: "length v \<le> length p \<Longrightarrow> startsWith (p @ r) v = startsWith p v"
  by (simp add: startsWith_def)

lemma resolveFromPath_of_parts:
  assumes "split_on CHR ''/'' p = G @ [a, v, F]"
    and "extname F = ext" 
    and "\<not> startsWith F v"
    and "substring F (length (a @ ''-'' @ v)) (length F - length ext) = m"
  shows "map_sum id name (resolveFromPath p) =
     Inr (join_with ''.'' G @ '':'' @ a @ '':'' @ v
          @ (let c = (if startsWith m ''-'' then drop 1 m else m) in if c \<noteq> [] then '':'' @ c else [])
          @ (if drop 1 ext \<noteq> ''jar'' then ''@'' @ drop 1 ext else []))"
proof -
  have n: "2 \<le> length (G @ [a, v, F])" "3 \<le> length (G @ [a, v, F])" by simp_all
  have j: "js_str (Some a) = a" "js_str (Some v) = v" by (simp_all add: js_str_def)
  show ?thesis
    unfolding resolveFromPath_def Let_def assms(1) tail_parts
    by (simp only: n if_True j assms(2) assms(3) assms(4) if_False sum.case) simp
qed

lemma round_trip_canonical:
  assumes "plain g" "plain a" "plain v"
    and cl: "\<forall>c. cl = Some c \<longrightarrow> c \<noteq> [] \<and> plain c"
    and t: "\<forall>y. t = Some y \<longrightarrow> y \<noteq> ''jar'' \<and> CHR ''@'' \<notin> set y \<and> CHR ''/'' \<notin> set y \<and> CHR ''.'' \<notin> set y"
    and ns: "\<not> startsWith (a @ ''-'' @ v) v"
  shows "map_sum id name (resolveFromPath (canonical_path g a v cl t)) = Inr (coordinate g a v cl t)"
proof -
  define m where "m = (case cl of None \<Rightarrow> [] | Some c \<Rightarrow> ''-'' @ c)"
  define ty where "ty = (case t of None \<Rightarrow> ''jar'' | Some y \<Rightarrow> y)"
  define F where "F = (a @ ''-'' @ v) @ m @ (''.'' @ ty)"
  have slash: "CHR ''/'' \<notin> set a" "CHR ''/'' \<notin> set v" "CHR ''/'' \<notin> set g"
    using assms(1-3) by (simp_all add: plain_def)
  have tydot: "CHR ''.'' \<notin> set ty" "CHR ''/'' \<notin> set ty"
    using t by (auto simp: ty_def split: option.splits)
  have mslash: "CHR ''/'' \<notin> set m"
    using cl by (auto simp: m_def plain_def split: option.splits)
  have Fslash: "CHR ''/'' \<notin> set F"
    using slash tydot mslash by (simp add: F_def)
  have p: "canonical_path g a v cl t = dots_to_slashes g @ ''/'' @ a @ ''/'' @ v @ ''/'' @ F"
    by (simp add: canonical_path_def F_def m_def ty_def)
  have sp: "split_on CHR ''/'' (canonical_path g a v cl t)
      = split_on CHR ''/'' (dots_to_slashes g) @ [a, v, F]"
    unfolding p by (rule split_path[OF slash(1,2) Fslash])
  have b: "(a @ ''-'' @ v) @ m \<noteq> []" "(a @ ''-'' @ v) @ m \<noteq> ''.''"
    by (auto simp: append_eq_Cons_conv)
  have ext: "extname F = ''.'' @ ty"
    using extname_dot[OF tydot(1) b] by (simp add: F_def)
  have nsF: "\<not> startsWith F v"
    unfolding F_def using ns startsWith_append[of v "a @ ''-'' @ v" "m @ (''.'' @ ty)"] by simp
  have sub: "substring F (length (a @ ''-'' @ v)) (length F - length (''.'' @ ty)) = m"
    unfolding F_def by (rule substring_mid)
  have mc: "(let c = (if startsWith m ''-'' then drop 1 m else m) in if c \<noteq> [] then '':'' @ c else [])
      = (case cl of None \<Rightarrow> [] | Some c \<Rightarrow> '':'' @ c)"
    using cl by (auto simp: m_def startsWith_def split: option.splits)
  have tc: "(if drop 1 (''.'' @ ty) \<noteq> ''jar'' then ''@'' @ drop 1 (''.'' @ ty) else [])
      = (case t of None \<Rightarrow> [] | Some y \<Rightarrow> ''@'' @ y)"
    using t by (auto simp: ty_def split: option.splits)
  show ?thesis
    unfolding resolveFromPath_of_parts[OF sp ext nsF sub] mc tc
    by (simp add: join_split_dots[OF slash(3)] coordinate_def)
qed

text \<open>
  Claim C2, as amended. Let \<open>c\<close> be the coordinate \<^verbatim>\<open>g:a:v[:cl][@t]\<close> in which no component
  holds a separator (\<^verbatim>\<open>:\<close>, \<^verbatim>\<open>@\<close> or \<^verbatim>\<open>/\<close> in \<open>g\<close>, \<open>a\<close>, \<open>v\<close>, \<open>cl\<close>; \<^verbatim>\<open>@\<close> in \<open>t\<close>) and a
  classifier that is given is not empty. Then \<^verbatim>\<open>resolve(c).path\<close> is the canonical path.
  If moreover a type that is given is not \<^verbatim>\<open>jar\<close> and holds neither \<^verbatim>\<open>/\<close> nor a dot,
  and the file name \<^verbatim>\<open>a-v...\<close> does not begin with the version, then \<^verbatim>\<open>resolveFromPath\<close> of
  that path has the name \<open>c\<close> again. Whether the version ends in \<^verbatim>\<open>-SNAPSHOT\<close> plays no
  part.
\<close>

theorem coordinate_round_trip:
  assumes "plain g" "plain a" "plain v"
    and "\<forall>c. cl = Some c \<longrightarrow> c \<noteq> [] \<and> plain c"
    and "\<forall>y. t = Some y \<longrightarrow> CHR ''@'' \<notin> set y"
  shows "resolve_path (coordinate g a v cl t) = Inr (canonical_path g a v cl t)
       \<and> ((\<forall>y. t = Some y \<longrightarrow> y \<noteq> ''jar'' \<and> CHR ''/'' \<notin> set y \<and> CHR ''.'' \<notin> set y)
            \<and> \<not> startsWith (a @ ''-'' @ v) v
          \<longrightarrow> round_trip (coordinate g a v cl t) = Inr (coordinate g a v cl t))"
proof -
  have 1: "resolve_path (coordinate g a v cl t) = Inr (canonical_path g a v cl t)"
    by (rule resolve_coordinate[OF assms])
  then obtain i where i: "resolve (coordinate g a v cl t) = Inr i" "path i = canonical_path g a v cl t"
    by (cases "resolve (coordinate g a v cl t)") (auto simp: resolve_path_def)
  have 2: "round_trip (coordinate g a v cl t) = Inr (coordinate g a v cl t)"
    if t: "\<forall>y. t = Some y \<longrightarrow> y \<noteq> ''jar'' \<and> CHR ''/'' \<notin> set y \<and> CHR ''.'' \<notin> set y"
      and ns: "\<not> startsWith (a @ ''-'' @ v) v"
  proof -
    from t assms(5)
    have t': "\<forall>y. t = Some y \<longrightarrow>
        y \<noteq> ''jar'' \<and> CHR ''@'' \<notin> set y \<and> CHR ''/'' \<notin> set y \<and> CHR ''.'' \<notin> set y"
      by simp
    show ?thesis
      unfolding round_trip_def i sum.case
      by (rule round_trip_canonical[OF assms(1-4) t' ns])
  qed
  from 1 2 show ?thesis by blast
qed

text \<open>The round trip on \<^verbatim>\<open>com.example:lib:1.0:natives-linux@zip\<close>.\<close>

theorem coordinate_round_trip_witness:
  "plain ''com.example'' \<and> plain ''lib'' \<and> plain ''1.0'' \<and> plain ''natives-linux''
   \<and> \<not> startsWith ''lib-1.0'' ''1.0''
   \<and> coordinate ''com.example'' ''lib'' ''1.0'' (Some ''natives-linux'') (Some ''zip'')
       = ''com.example:lib:1.0:natives-linux@zip''
   \<and> resolve_path ''com.example:lib:1.0:natives-linux@zip''
       = Inr ''com/example/lib/1.0/lib-1.0-natives-linux.zip''
   \<and> round_trip ''com.example:lib:1.0:natives-linux@zip''
       = Inr ''com.example:lib:1.0:natives-linux@zip''"
  using coordinate_round_trip[of "''com.example''" "''lib''" "''1.0''" "Some ''natives-linux''" "Some ''zip''"]
  by (simp add: plain_def startsWith_def coordinate_def canonical_path_def dots_to_slashes_def)

text \<open>
  Claim C2 as stated fails on a coordinate that spells out the default type: for
  \<^verbatim>\<open>com.example:lib:1.0@jar\<close>, not a snapshot, the path parses back to the name
  \<^verbatim>\<open>com.example:lib:1.0\<close>, because \<^verbatim>\<open>resolveFromPath\<close> appends \<^verbatim>\<open>@type\<close> only for a type
  other than \<^verbatim>\<open>jar\<close>.
\<close>

theorem coordinate_round_trip_counterexample:
  "coordinate ''com.example'' ''lib'' ''1.0'' None (Some ''jar'') = ''com.example:lib:1.0@jar''
   \<and> \<not> endsWith ''1.0'' ''-SNAPSHOT''
   \<and> round_trip ''com.example:lib:1.0@jar'' = Inr ''com.example:lib:1.0''
   \<and> round_trip ''com.example:lib:1.0@jar'' \<noteq> Inr ''com.example:lib:1.0@jar''"
  by code_simp


section \<open>Interpolation: what \<^verbatim>\<open>format\<close> substitutes\<close>

lemma format_literal:
  "\<not> has_open (s @ take 1 r) \<Longrightarrow> format (s @ r) args = s @ format r args"
proof (induction s)
  case Nil
  then show ?case by simp
next
  case (Cons c s)
  show ?case
  proof (cases "s @ r = []")
    case True
    then show ?thesis by simp
  next
    case False
    then obtain x xs where sr: "s @ r = x # xs" by (cases "s @ r") auto
    then obtain t where e: "s @ take 1 r = x # t" by (cases s; cases r) simp_all
    from Cons.prems have "\<not> has_open (c # (s @ take 1 r))" by simp
    then have "\<not> has_open (c # x # t)" unfolding e .
    then have no: "\<not> (c = CHR ''$'' \<and> x = CHR ''{'')" "\<not> has_open (x # t)" by simp_all
    from no(2) have "\<not> has_open (s @ take 1 r)" unfolding e .
    then have IH: "format (s @ r) args = s @ format r args" by (rule Cons.IH)
    have "format (c # x # xs) args = c # format (x # xs) args"
      using no(1) by auto
    then have "format ((c # s) @ r) args = c # format (s @ r) args"
      using sr by simp
    then show ?thesis using IH by simp
  qed
qed

lemma closes_key:
  "CHR ''}'' \<notin> set k \<Longrightarrow> \<not> list_ex line_terminator k \<Longrightarrow> closes (k @ CHR ''}'' # r)"
  by (induction k) (auto simp: closes_def)

lemma takeWhile_key: "CHR ''}'' \<notin> set k \<Longrightarrow> takeWhile (\<lambda>c. c \<noteq> CHR ''}'') (k @ CHR ''}'' # r) = k"
  by (induction k) auto

lemma dropWhile_key: "CHR ''}'' \<notin> set k \<Longrightarrow> dropWhile (\<lambda>c. c \<noteq> CHR ''}'') (k @ CHR ''}'' # r) = CHR ''}'' # r"
  by (induction k) auto

lemma callback_key:
  "format_callback args (''${'' @ k @ ''}'') =
     (case lookup args k of None \<Rightarrow> ''${'' @ k @ ''}'' | Some v \<Rightarrow> if v \<noteq> [] then v else ''${'' @ k @ ''}'')"
  by (simp add: format_callback_def substring_def split: option.splits)

lemma format_placeholder:
  assumes "CHR ''}'' \<notin> set k" "\<not> list_ex line_terminator k"
  shows "format (''${'' @ k @ ''}'' @ r) args = format_callback args (''${'' @ k @ ''}'') @ format r args"
  using closes_key[OF assms, of r] takeWhile_key[OF assms(1), of r] dropWhile_key[OF assms(1), of r]
  by simp

text \<open>
  Claim C8, as amended. For every placeholder map (an object literal with string values)
  and every template made of literal text in which no \<^verbatim>\<open>${\<close> stands and of placeholders
  \<^verbatim>\<open>${key}\<close> (a key holds neither \<^verbatim>\<open>}\<close> nor a line terminator), \<^verbatim>\<open>format\<close> replaces each
  placeholder for which the lookup \<^verbatim>\<open>args[key]\<close> finds a truthy value by that value, once
  and without scanning the value again, and leaves every other placeholder as it is
  written. The lookup finds the value of a key of the map, which counts when it is not
  the empty string, and, for a key that the map lacks, the property that
  \<^verbatim>\<open>Object.prototype\<close> has under that name (\<^verbatim>\<open>constructor\<close>, \<^verbatim>\<open>toString\<close>, ...), whose string form
  is inserted. So a placeholder stays verbatim when its key is neither in the map nor
  such an inherited name, and when its value in the map is the empty string.
\<close>

theorem format_substitutes:
  "well_formed ps \<Longrightarrow> format (render ps) args = substituted args ps"
proof (induction ps)
  case Nil
  then show ?case by simp
next
  case (Cons p ps)
  then have IH: "format (render ps) args = substituted args ps" by (cases p) simp_all
  show ?case
  proof (cases p)
    case (Lit s)
    with Cons.prems have "\<not> has_open (s @ take 1 (render ps))" by simp
    then have "format (s @ render ps) args = s @ format (render ps) args"
      by (rule format_literal)
    then show ?thesis using IH Lit by simp
  next
    case (Placeholder k)
    with Cons.prems have k: "CHR ''}'' \<notin> set k" "\<not> list_ex line_terminator k" by simp_all
    have "format (render (p # ps)) args
        = format_callback args (''${'' @ k @ ''}'') @ format (render ps) args"
      unfolding Placeholder render.simps by (rule format_placeholder[OF k])
    then show ?thesis
      unfolding IH callback_key Placeholder substituted.simps .
  qed
qed

text \<open>A jvm argument template with a dollar sign in its literal text, two placeholders
  that the map knows, one that nothing knows and one that \<^verbatim>\<open>Object.prototype\<close> knows.\<close>

theorem format_substitutes_witness:
  "well_formed brand_template
   \<and> render brand_template
       = ''-Dname=${launcher_name} -Dcost=$5{} -cp ${classpath} ${unknown} ${constructor}''
   \<and> format ''-Dname=${launcher_name} -Dcost=$5{} -cp ${classpath} ${unknown} ${constructor}''
         (map_of [(''launcher_name'', ''Launcher''), (''classpath'', ''a.jar:b.jar'')])
       = ''-Dname=Launcher -Dcost=$5{} -cp a.jar:b.jar ${unknown} function Object() { [native code] }''"
  using format_substitutes[of brand_template
      "map_of [(''launcher_name'', ''Launcher''), (''classpath'', ''a.jar:b.jar'')]"]
  by (simp add: brand_template_def line_terminator_def lookup_def object_prototype_def)

text \<open>
  Claim C8 as stated fails for a key that the map holds with the empty string: the
  callback returns \<^verbatim>\<open>value || key\<close>, the empty string is falsy, and \<^verbatim>\<open>${a}\<close> stays in the
  output where the claim puts the (empty) value.
\<close>

theorem format_substitutes_counterexample:
  "map_of [(''a'', [])] ''a'' = Some []
   \<and> format ''${a}'' (map_of [(''a'', [])]) = ''${a}''
   \<and> format ''${a}'' (map_of [(''a'', [])]) \<noteq> []"
  by (simp add: closes_def format_callback_def lookup_def substring_def line_terminator_def)


section \<open>The directory layout: \<^verbatim>\<open>MinecraftFolder.from\<close>\<close>

text \<open>
  Claim C10. \<^verbatim>\<open>MinecraftFolder.from\<close> returns an instance it is given as it is (the same
  address, the heap untouched); from a string, and from an object with a \<^verbatim>\<open>root\<close> field,
  it makes a folder with that root and leaves the objects already in the heap alone;
  and applying it to its own result returns that result: the same instance, hence the
  same folder and root.
\<close>

theorem MinecraftFolder_from_idempotent:
  "MinecraftFolder_from h (LocInstance r) = (h, r)
   \<and> root (folder_of h (LocString s)) = s
   \<and> root (folder_of h (LocObject s)) = s
   \<and> (case MinecraftFolder_from h x of
        (h1, r1) \<Rightarrow> take (length h) h1 = h
          \<and> MinecraftFolder_from h1 (LocInstance r1) = (h1, r1)
          \<and> folder_of h1 (LocInstance r1) = folder_of h x)"
  by (cases x) (simp_all add: folder_of_def MinecraftFolder_new_def)

section \<open>The rule evaluator against its specification\<close>

lemma checkAllowed_loop_filter:
  "checkAllowed_loop rx p fs allow rs =
     (case filter (rule_applies rx p fs) rs of
        [] \<Rightarrow> allow
      | a # as \<Rightarrow> action (last (a # as)) = ''allow'')"
  by (induction rs arbitrary: allow) (auto split: list.splits)

lemma features_apply_match:
  "(case features r of None \<Rightarrow> True | Some fr \<Rightarrow> features_apply fr fs) = features_match r (set fs)"
proof -
  have "(\<lambda>(k, v). if v then k \<in> set fs else k \<notin> set fs) = (\<lambda>(k, required). (k \<in> set fs) = required)"
    by (rule ext) auto
  then show ?thesis
    by (simp add: features_apply_def features_match_def split: option.splits)
qed

lemma rule_applies_no_arch:
  "rule_applies rx p fs r = applies_no_arch rx p (set fs) r"
  using features_apply_match[of fs r]
  by (auto simp: rule_applies_def applies_no_arch_def os_applies_def Let_def split: option.splits)

text \<open>
  Claim C3, as amended. For every rule list, platform and feature list, \<^verbatim>\<open>checkAllowed\<close>
  is the reference algorithm with this notion of "applies": an empty or absent list
  allows; otherwise a rule applies iff it has no \<^verbatim>\<open>os\<close> clause, or its \<^verbatim>\<open>os.name\<close> is present
  and equals the platform's name and its \<^verbatim>\<open>os.version\<close>, when present and not empty, matches
  the platform's version as a regular expression, and moreover every features entry
  agrees with membership in the feature set; the action of the last rule that applies
  decides, and \<^verbatim>\<open>false\<close> results when none applies. An \<^verbatim>\<open>os\<close> clause without a name never
  applies, and \<^verbatim>\<open>os.arch\<close> is never read.
\<close>

theorem checkAllowed_last_applicable:
  "checkAllowed rx rules platform fs
     = last_applicable_wins (applies_no_arch rx platform (set fs)) rules"
proof (cases rules)
  case None
  then show ?thesis by (simp add: checkAllowed_def last_applicable_wins_def)
next
  case (Some rs)
  have "filter (rule_applies rx platform fs) rs
      = filter (applies_no_arch rx platform (set fs)) rs"
    by (intro filter_cong) (auto simp: rule_applies_no_arch)
  then show ?thesis
    using Some by (simp add: checkAllowed_def last_applicable_wins_def checkAllowed_loop_filter)
qed

text \<open>The three sample rules: allowed on Linux, with and without the demo feature; the
  first two disallow on \<^verbatim>\<open>osx\<close> 10.5. And a rule whose \<^verbatim>\<open>os\<close> clause has an \<^verbatim>\<open>arch\<close> but no
  name: it does not apply, not even on that architecture.\<close>

theorem checkAllowed_last_applicable_witness:
  "checkAllowed occurs_in (Some three_rules) linux_x64 [] = True
   \<and> checkAllowed occurs_in (Some three_rules) linux_x64 [''is_demo_user''] = True
   \<and> checkAllowed occurs_in (Some (take 2 three_rules))
         \<lparr>pname = ''osx'', pversion = ''10.5.8'', parch = ''x64''\<rparr> [] = False
   \<and> checkAllowed occurs_in (Some [x86_only_rule])
         \<lparr>pname = ''windows'', pversion = ''10.0'', parch = ''x86''\<rparr> [] = False"
  using checkAllowed_last_applicable[of occurs_in "Some three_rules" linux_x64 "[]"]
    checkAllowed_last_applicable[of occurs_in "Some three_rules" linux_x64 "[''is_demo_user'']"]
    checkAllowed_last_applicable[of occurs_in "Some (take 2 three_rules)"
      "\<lparr>pname = ''osx'', pversion = ''10.5.8'', parch = ''x64''\<rparr>" "[]"]
    checkAllowed_last_applicable[of occurs_in "Some [x86_only_rule]"
      "\<lparr>pname = ''windows'', pversion = ''10.0'', parch = ''x86''\<rparr>" "[]"]
  by (simp add: three_rules_def x86_only_rule_def linux_x64_def last_applicable_wins_def
        applies_no_arch_def features_match_def startsWith_def)

text \<open>
  Claim C3 as stated fails on a rule with an \<^verbatim>\<open>os.arch\<close>: on 64-bit Windows the single
  rule "allow on windows, arch x86" makes \<^verbatim>\<open>checkAllowed\<close> answer \<^verbatim>\<open>true\<close>, where the
  reference algorithm of the claim, which compares \<^verbatim>\<open>os.arch\<close> with the platform's
  architecture, answers \<^verbatim>\<open>false\<close>.
\<close>

theorem checkAllowed_arch_counterexample:
  "checkAllowed occurs_in
     (Some [\<lparr>action = ''allow'',
             os = Some \<lparr>os_name = Some ''windows'', os_version = None, os_arch = Some ''x86''\<rparr>,
             features = None\<rparr>])
     \<lparr>pname = ''windows'', pversion = ''10.0'', parch = ''x64''\<rparr> []
   = True
   \<and> last_applicable_wins
       (applies_spec occurs_in \<lparr>pname = ''windows'', pversion = ''10.0'', parch = ''x64''\<rparr> (set []))
       (Some [\<lparr>action = ''allow'',
               os = Some \<lparr>os_name = Some ''windows'', os_version = None, os_arch = Some ''x86''\<rparr>,
               features = None\<rparr>])
   = False"
  by (simp add: checkAllowed_def rule_applies_def os_applies_def last_applicable_wins_def
        applies_spec_def features_match_def)


section \<open>Merging: arguments, main class and downloads\<close>

lemma add_library_keeps:
  "m_args (add_library lib st) = m_args st" "m_mainClass (add_library lib st) = m_mainClass st"
  by (simp_all add: add_library_def Let_def)

lemma fold_add_library_keeps:
  "m_args (fold add_library libs st) = m_args st"
  "m_mainClass (fold add_library libs st) = m_mainClass st"
  by (induction libs arbitrary: st) (simp_all add: add_library_keeps)

lemma add_downloads_keeps:
  "m_args (add_downloads j st) = m_args st" "m_mainClass (add_downloads j st) = m_mainClass st"
  by (simp_all add: add_downloads_def split: option.splits)

lemma merge_step_args:
  assumes "merge_step st j = Inr st'"
  shows "m_args st' =
           (if \<not> replace j
            then \<lparr>jvm = jvm (m_args st) @ jvm (arguments j),
                  game = game (m_args st) @ game (arguments j)\<rparr>
            else \<lparr>jvm = jvm (arguments j), game = game (arguments j)\<rparr>)"
    and "m_mainClass st' = str_or (mainClass j) (m_mainClass st)"
  using assms
  by (auto simp: merge_step_def Let_def add_downloads_keeps fold_add_library_keeps
           split: option.splits libraries_value.splits)

lemma Version_resolve_two:
  assumes "Version_resolve join h loc [C, P] = Inr rv"
  obtains st1 st2 where "merge_step
         \<lparr>m_assetIndex = assetIndex P, m_assets = [],
                       m_downloadsMap = [], m_librariesMap = [], m_nativesMap = [],
                       m_mainClass = [], m_args = \<lparr>jvm = [], game = []\<rparr>,
                       m_minimumLauncherVersion = 0, m_releaseTime = [], m_time = [],
                       m_type = [], m_logging = None, m_location = None,
                       m_javaVersion = \<lparr>majorVersion = 8, component = ''jre-legacy''\<rparr>\<rparr> P = Inr st1"
     "merge_step st1 C = Inr st2" "rv_arguments rv = m_args st2" "rv_mainClass rv = m_mainClass st2"
     "m_mainClass st2 \<noteq> []"
  using assms
  by (auto simp: Version_resolve_def Let_def split: sum.splits if_splits)

text \<open>
  What the loop merges. Whenever \<^verbatim>\<open>Version.resolve\<close> resolves the two-link chain of a
  child \<open>C\<close> and its parent \<open>P\<close> (the hierarchy \<open>[C, P]\<close>), the resolved jvm and game arguments
  are \<open>P\<close>'s followed by \<open>C\<close>'s when \<open>C\<close> is not legacy (in particular when neither is),
  they are \<open>C\<close>'s alone when \<open>C\<close> is legacy, and the resolved main class is \<open>C\<close>'s when
  \<open>C\<close> defines one and \<open>P\<close>'s otherwise; one of the two defines it.
\<close>

lemma inheritance_merge:
  assumes "Version_resolve join h loc [C, P] = Inr rv"
  shows "(\<not> replace C \<longrightarrow>
            jvm (rv_arguments rv) = jvm (arguments P) @ jvm (arguments C)
            \<and> game (rv_arguments rv) = game (arguments P) @ game (arguments C))
       \<and> (replace C \<longrightarrow>
            jvm (rv_arguments rv) = jvm (arguments C)
            \<and> game (rv_arguments rv) = game (arguments C))
       \<and> rv_mainClass rv = (if defines_mainClass C then mainClass_of C else mainClass_of P)
       \<and> (defines_mainClass C \<or> defines_mainClass P)"
proof -
  from assms obtain st1 st2 where
    s: "merge_step
         \<lparr>m_assetIndex = assetIndex P, m_assets = [],
                       m_downloadsMap = [], m_librariesMap = [], m_nativesMap = [],
                       m_mainClass = [], m_args = \<lparr>jvm = [], game = []\<rparr>,
                       m_minimumLauncherVersion = 0, m_releaseTime = [], m_time = [],
                       m_type = [], m_logging = None, m_location = None,
                       m_javaVersion = \<lparr>majorVersion = 8, component = ''jre-legacy''\<rparr>\<rparr> P = Inr st1"
     "merge_step st1 C = Inr st2" and r: "rv_arguments rv = m_args st2" "rv_mainClass rv = m_mainClass st2"
     "m_mainClass st2 \<noteq> []"
    by (rule Version_resolve_two)
  have a1: "jvm (m_args st1) = jvm (arguments P)" "game (m_args st1) = game (arguments P)"
    using merge_step_args(1)[OF s(1)] by simp_all
  have m1: "m_mainClass st1 = str_or (mainClass P) []"
    using merge_step_args(2)[OF s(1)] by simp
  have m2: "m_mainClass st2 = str_or (mainClass C) (str_or (mainClass P) [])"
    using merge_step_args(2)[OF s(2)] m1 by simp
  have args: "m_args st2 =
           (if \<not> replace C
            then \<lparr>jvm = jvm (arguments P) @ jvm (arguments C),
                  game = game (arguments P) @ game (arguments C)\<rparr>
            else \<lparr>jvm = jvm (arguments C), game = game (arguments C)\<rparr>)"
    using merge_step_args(1)[OF s(2)] a1 by simp
  have mc: "m_mainClass st2 = (if defines_mainClass C then mainClass_of C else mainClass_of P)"
    "defines_mainClass C \<or> defines_mainClass P"
    using m2 r(3)
    by (auto simp: str_or_def defines_mainClass_def mainClass_of_def split: option.splits if_splits)
  show ?thesis
    using args mc r by simp
qed

text \<open>Such a chain does resolve when both manifests have libraries that can be
  iterated and one of them defines the main class.\<close>

lemma merge_step_succeeds:
  "libraries_iterable j \<Longrightarrow> \<exists>st'. merge_step st j = Inr st'"
  by (auto simp: merge_step_def libraries_iterable_def Let_def
        split: option.splits libraries_value.splits)

lemma Version_resolve_two_succeeds:
  assumes "libraries_iterable C" "libraries_iterable P"
    and "defines_mainClass C \<or> defines_mainClass P"
  shows "\<exists>rv. Version_resolve join h loc [C, P] = Inr rv"
proof -
  let ?init = "\<lparr>m_assetIndex = assetIndex P, m_assets = [],
                       m_downloadsMap = [], m_librariesMap = [], m_nativesMap = [],
                       m_mainClass = [], m_args = \<lparr>jvm = [], game = []\<rparr>,
                       m_minimumLauncherVersion = 0, m_releaseTime = [], m_time = [],
                       m_type = [], m_logging = None, m_location = None,
                       m_javaVersion = \<lparr>majorVersion = 8, component = ''jre-legacy''\<rparr>\<rparr>"
  obtain st1 where 1: "merge_step ?init P = Inr st1"
    using merge_step_succeeds[OF assms(2)] by blast
  obtain st2 where 2: "merge_step st1 C = Inr st2"
    using merge_step_succeeds[OF assms(1)] by blast
  have "m_mainClass st2 = str_or (mainClass C) (str_or (mainClass P) [])"
    using merge_step_args(2)[OF 2] merge_step_args(2)[OF 1] by simp
  with assms(3) have "m_mainClass st2 \<noteq> []"
    by (auto simp: str_or_def defines_mainClass_def split: option.splits)
  then show ?thesis
    using 1 2 by (simp add: Version_resolve_def Let_def)
qed

text \<open>A Forge child on a vanilla parent, both with modern arguments, resolves; the jvm
  arguments are the parent's and then the child's, the main class is the child's.\<close>

lemma inheritance_merge_example:
  "\<not> isl (Version_resolve slash_join [] (LocString ''/mc'') [forge_child, vanilla_parent])
   \<and> jvm (rv_arguments (projr (Version_resolve slash_join [] (LocString ''/mc'') [forge_child, vanilla_parent])))
       = [Plain ''-cp'', Plain ''${classpath}'', Plain ''-DignoreList=forge'']
   \<and> rv_mainClass (projr (Version_resolve slash_join [] (LocString ''/mc'') [forge_child, vanilla_parent]))
       = ''cpw.mods.bootstraplauncher.BootstrapLauncher''"
proof -
  let ?r = "Version_resolve slash_join [] (LocString ''/mc'') [forge_child, vanilla_parent]"
  have ok: "\<not> isl ?r"
    by (simp add: Version_resolve_def forge_child_def vanilla_parent_def sample_version_def
          merge_step_def add_downloads_def str_or_def obj_or_def Let_def)
  then have eq: "?r = Inr (projr ?r)" by simp
  from inheritance_merge[OF eq] ok show ?thesis
    by (simp add: forge_child_def vanilla_parent_def sample_version_def
          defines_mainClass_def mainClass_of_def)
qed

text \<open>A manifest that \<^verbatim>\<open>normalizeVersionJson\<close> returns holds the pending result of
  \<^verbatim>\<open>resolveLibraries\<close> as its \<^verbatim>\<open>libraries\<close>, whatever the JSON has there; \<^verbatim>\<open>Version.resolve\<close>
  pops the parent first and stops at its \<^verbatim>\<open>json.libraries.forEach\<close>.\<close>

lemma normalised_not_iterable:
  "normalizeVersionJson json_parse rx text rt platform = Inr v \<Longrightarrow> \<not> libraries_iterable v"
  by (auto simp: normalizeVersionJson_def libraries_iterable_def Let_def split: option.splits)

lemma normalised_parent_rejects:
  assumes "normalizeVersionJson json_parse rx text rt platform = Inr P"
  shows "Version_resolve join h loc [C, P]
         = Inl (TypeError ''json.libraries.forEach is not a function'')"
proof -
  have "libraries_field P = Some (LibrariesPromise (resolveLibraries rx
          (case raw_libraries (the (json_parse text)) of None \<Rightarrow> [] | Some ls \<Rightarrow> ls) platform))"
    using assms by (auto simp: normalizeVersionJson_def Let_def split: option.splits)
  then show ?thesis
    by (simp add: Version_resolve_def merge_step_def Let_def)
qed

text \<open>
  Claim C4 at a failing input: a Forge child and its vanilla parent, neither legacy,
  each normalised by \<^verbatim>\<open>Version.normalizeVersionJson\<close> and handed to \<^verbatim>\<open>Version.resolve\<close> as the
  hierarchy \<open>[C, P]\<close>. The normalised jvm lists are the child's \<^verbatim>\<open>-DignoreList=forge\<close> and
  the parent's \<^verbatim>\<open>-cp ${classpath}\<close>, so the claim's resolved jvm arguments would be the
  parent's followed by the child's. \<^verbatim>\<open>Version.resolve\<close> returns no resolved version: it
  throws the \<^verbatim>\<open>TypeError\<close> of \<^verbatim>\<open>json.libraries.forEach\<close> on the first manifest it pops.
\<close>

theorem loaded_chain_does_not_resolve:
  "normalized_jvm chain_parse occurs_in ''{forge}'' ''/mc'' linux_x64
     = Inr [Plain ''-DignoreList=forge'']
   \<and> normalized_jvm chain_parse occurs_in ''{vanilla}'' ''/mc'' linux_x64
     = Inr [Plain ''-cp'', Plain ''${classpath}'']
   \<and> resolve_texts chain_parse occurs_in slash_join [] ''/mc'' linux_x64 ''{forge}'' ''{vanilla}''
     = Inl (TypeError ''json.libraries.forEach is not a function'')"
  by (simp add: resolve_texts_def normalized_jvm_def normalizeVersionJson_def chain_parse_def
        forge_raw_def vanilla_raw_def sample_raw_def processArguments_def keeps_argument_def
        Version_resolve_def merge_step_def Let_def)

text \<open>
  Claim C6 at a failing input. The one-manifest chain of \<open>vanilla_parent\<close>, whose
  \<^verbatim>\<open>downloads\<close> has the role \<^verbatim>\<open>client\<close> with a SHA-1, resolves to a version whose \<^verbatim>\<open>downloads\<close>
  is the bare array of artifacts (\<^verbatim>\<open>Object.values(downloadsMap)\<close>): the roles are gone, and
  the checksum that \<^verbatim>\<open>diagnoseJar\<close> reads through \<^verbatim>\<open>downloads.client\<close> is the empty string
  instead of the client's SHA-1.
\<close>

theorem downloads_lose_their_roles:
  "map_sum id rv_downloads (Version_resolve slash_join [] (LocString ''/mc'') [vanilla_parent])
     = Inr [\<lparr>a_path = ''client.jar'', a_url = Some ''https://example.invalid/client.jar'',
                sha1 = Some ''0c3ec587af28e5a785c0b4a7b8a30f9a8f78f838'', a_size = 23028853\<rparr>]
   \<and> map_sum id jar_expected_checksum
        (Version_resolve slash_join [] (LocString ''/mc'') [vanilla_parent]) = Inr []"
  by (simp add: Version_resolve_def vanilla_parent_def sample_version_def
          merge_step_def add_downloads_def str_or_def obj_or_def Let_def
          jar_expected_checksum_def js_array_get_def array_index_def)

text \<open>Whatever the resolved version, \<^verbatim>\<open>client\<close> is not an index of the array and the
  expected checksum of the jar is empty.\<close>

lemma jar_expected_checksum_empty: "jar_expected_checksum rv = []"
  by (simp add: jar_expected_checksum_def js_array_get_def array_index_def)

section \<open>Normalisation: which jvm arguments stay\<close>

lemma keeps_argument_eq: "keeps_argument rx p a = kept_at_normalisation rx p a"
  by (auto simp: keeps_argument_def kept_at_normalisation_def has_feature_predicate_def
        list_all_iff list_ex_iff split: Argument.splits option.splits)

text \<open>
  Claim C5, as amended. For every manifest that parses, the jvm list of the normalised
  manifest is the source list, in order, with exactly these elements kept: every plain
  string; every conditional object without rules; every conditional object one of whose
  rules has a feature predicate (it is left for launch time, not dropped); and a
  conditional object whose rules are OS-only exactly when \<^verbatim>\<open>checkAllowed\<close> allows it on the
  platform, with no features.
\<close>

theorem normalize_jvm_filter:
  assumes "json_parse versionString = Some parsed"
  shows "normalized_jvm json_parse rx versionString rt platform
         = Inr (filter (kept_at_normalisation rx platform) (source_jvm parsed))"
proof -
  have "keeps_argument rx platform = kept_at_normalisation rx platform"
    by (rule ext) (rule keeps_argument_eq)
  then show ?thesis
    using assms
    by (simp add: normalized_jvm_def normalizeVersionJson_def Let_def processArguments_def
          source_jvm_def split: option.splits)
qed

text \<open>On Linux the demo-user argument and the plain string stay, the macOS argument goes.\<close>

theorem normalize_jvm_filter_witness:
  "parse_as demo_manifest ''{}'' = Some demo_manifest
   \<and> source_jvm demo_manifest = [demo_argument, osx_argument, Plain ''-cp'']
   \<and> normalized_jvm (parse_as demo_manifest) occurs_in ''{}'' ''/mc'' linux_x64
       = Inr [demo_argument, Plain ''-cp'']"
  using normalize_jvm_filter[of "parse_as demo_manifest" "''{}''" demo_manifest occurs_in "''/mc''" linux_x64]
  by (simp add: parse_as_def demo_manifest_def sample_raw_def source_jvm_def
        kept_at_normalisation_def has_feature_predicate_def demo_argument_def osx_argument_def
        checkAllowed_def rule_applies_def os_applies_def linux_x64_def)

text \<open>
  Claim C5 as stated fails on a conditional object with a feature predicate: the
  specification's rule leaves only \<^verbatim>\<open>-cp\<close> of the sample jvm list, and normalisation keeps
  the \<^verbatim>\<open>is_demo_user\<close> argument as well.
\<close>

theorem normalize_keeps_feature_rules_counterexample:
  "filter (kept_by_spec occurs_in linux_x64) (source_jvm demo_manifest) = [Plain ''-cp'']
   \<and> normalized_jvm (parse_as demo_manifest) occurs_in ''{}'' ''/mc'' linux_x64
       = Inr [demo_argument, Plain ''-cp'']"
  by (simp add: normalized_jvm_def normalizeVersionJson_def Let_def processArguments_def
        parse_as_def demo_manifest_def sample_raw_def keeps_argument_def source_jvm_def
        kept_by_spec_def has_feature_predicate_def demo_argument_def osx_argument_def
        checkAllowed_def rule_applies_def os_applies_def linux_x64_def)


section \<open>The dependency walk as the source has it\<close>

text \<open>With \<^verbatim>\<open>this.normalizeVersionJson\<close> unbound, one step of the walk ends it: the manifest
  is missing, or the call throws.\<close>

lemma walk_as_written:
  "walk (Suc n) (env\<lparr>this_normalize := None\<rparr>) stack v =
     Some (Inl (case w_readFile env (getVersionJson (w_join env) (w_folder env) v) of
                  None \<Rightarrow> MissingVersionJson v (getVersionJson (w_join env) (w_folder env) v)
                | Some c \<Rightarrow> TypeError ''this.normalizeVersionJson is not a function''))"
  by (simp add: Let_def split: option.splits)

text \<open>
  Claim C7 at a failing input. In a folder where A inherits from B and B from A,
  \<^verbatim>\<open>resolveDependency\<close> for A reads A's manifest and rejects with the \<^verbatim>\<open>TypeError\<close> of the
  unbound method call; it reaches neither B nor the cycle test, and no
  \<^verbatim>\<open>CircularDependenciesError\<close> is raised.
\<close>

theorem cycle_is_not_detected:
  "resolveDependency 3 slash_join cycle_files [] (LocString ''/mc'') ''A'' linux_x64
     = Some (Inl (TypeError ''this.normalizeVersionJson is not a function''))"
  by (simp add: resolveDependency_def resolveDependency_with_def numeral_3_eq_3 Let_def
        cycle_files_def folder_of_def MinecraftFolder_new_def getVersionJson_def
        getVersionRoot_def versions_def getPath_def slash_join_def)

text \<open>The walk itself detects the cycle, with the chain A, B, A, once the method call
  is bound to \<^verbatim>\<open>normalizeVersionJson\<close>.\<close>

lemma cycle_detected_when_bound:
  "resolveDependency_with (Some (normalizeVersionJson cycle_parse occurs_in)) 3 slash_join
       cycle_files [] (LocString ''/mc'') ''A'' linux_x64
     = Some (Inl (CircularDependenciesError ''A'' [''A'', ''B'', ''A'']))"
  by (simp add: resolveDependency_with_def numeral_3_eq_3 Let_def
        cycle_files_def cycle_parse_def sample_raw_def folder_of_def MinecraftFolder_new_def
        getVersionJson_def getVersionRoot_def versions_def getPath_def slash_join_def
        normalizeVersionJson_def)


section \<open>The diagnoser when \<^verbatim>\<open>Version.parse\<close> fails\<close>

text \<open>\<^verbatim>\<open>Version.parse\<close> as the module has it rejects on every input, with an error that has
  neither an \<^verbatim>\<open>error\<close> nor a \<^verbatim>\<open>version\<close> property.\<close>

lemma Version_parse_fails:
  "Version_parse join h loc ver None = Inl (TypeError ''getPlatform is not a function'')"
  "Version_parse join h loc ver (Some p) = Inl (ReferenceError ''resolveDependency is not defined'')"
  by (simp_all add: Version_parse_def Version_parse_in_def getPlatform_binding_def
        resolveDependency_binding_def split: prod.splits)

text \<open>
  Claim C9 at its failing inputs, which are all inputs. \<^verbatim>\<open>diagnose\<close> calls
  \<^verbatim>\<open>Version.parse\<close> with two arguments; the rejection is a \<^verbatim>\<open>TypeError\<close>, whose kind is not
  \<^verbatim>\<open>CorruptedVersionJson\<close>; the \<^verbatim>\<open>catch\<close> block takes the "missing" branch and evaluates
  \<^verbatim>\<open>minecraft.getVersionJson(e.version)\<close> on a version that is \<^verbatim>\<open>undefined\<close>, and \<^verbatim>\<open>path.join\<close>
  throws. \<^verbatim>\<open>diagnose\<close> rejects and returns no report; it has made no check.
\<close>

theorem diagnose_rejects:
  "diagnose join fs h ver loc options
     = ([], Inl (TypeError ''The path argument must be of type string''))"
  by (simp add: diagnose_def Version_parse_fails diagnose_after_def getVersionJson_of_def
        split: prod.splits)

text \<open>For a rejection that carries a version, the \<^verbatim>\<open>catch\<close> block does report: one
  issue for the version's manifest, "corrupted" for \<^verbatim>\<open>CorruptedVersionJson\<close> and "missing"
  for every other kind, and no check.\<close>

lemma diagnose_after_failure:
  assumes "err_version e = Some v"
  shows "diagnose_after join fs minecraft m ver options (Inl e)
     = ([], Inr \<lparr>minecraftLocation = m, report_version = ver,
                  issues = [versionJson_issue
                              (if err_error e = Some ''CorruptedVersionJson''
                               then ''corrupted'' else ''missing'')
                              (getVersionJson join minecraft v)]\<rparr>)"
  using assms by (simp add: diagnose_after_def getVersionJson_of_def)


section \<open>Native libraries\<close>

text \<open>
  Claim C1 at a failing input: the entry \<^verbatim>\<open>natives-windows-${arch}\<close> on Windows with
  \<^verbatim>\<open>platform.arch = 'arm64'\<close>. \<^verbatim>\<open>substring(1)\<close> drops the first character whatever it is,
  so the classifier is \<^verbatim>\<open>natives-windows-rm64\<close>, and that is the name the library gets
  when \<^verbatim>\<open>LibraryInfo.resolve\<close> is \<^verbatim>\<open>resolve\<close>; as the module has it, with no \<^verbatim>\<open>LibraryInfo\<close>,
  the call rejects with a \<^verbatim>\<open>ReferenceError\<close>.
\<close>

theorem native_classifier_arm64:
  "native_classifier ''natives-windows-${arch}'' windows_arm64 = ''natives-windows-rm64''
   \<and> map_sum id (map_option name) (resolveLibrary_in (Some resolve) occurs_in twitch_platform windows_arm64)
       = Inr (Some ''tv.twitch:twitch-platform:5.16:natives-windows-rm64'')
   \<and> resolveLibrary occurs_in twitch_platform windows_arm64
       = Inl (ReferenceError ''LibraryInfo is not defined'')"
  by (simp add: native_classifier_def js_replace_def startsWith_def windows_arm64_def
        resolveLibrary_def resolveLibrary_in_def LibraryInfo_binding_def twitch_platform_def
        Let_def resolve_def endsWith_def dots_to_slashes_def new_ResolvedLibrary_def)

text \<open>As the module has it, every native entry that passes the rules and has an entry
  for the platform ends in the \<^verbatim>\<open>ReferenceError\<close>.\<close>

lemma resolveLibrary_native_rejects:
  assumes "lib_rules lib = None \<or> checkAllowed rx (lib_rules lib) platform []"
    and "natives lib = Some table" "map_of table (pname platform) = Some entry" "entry \<noteq> []"
  shows "resolveLibrary rx lib platform = Inl (ReferenceError ''LibraryInfo is not defined'')"
  using assms
  by (auto simp: resolveLibrary_def resolveLibrary_in_def LibraryInfo_binding_def Let_def)

text \<open>On \<^verbatim>\<open>x64\<close> the classifier is \<^verbatim>\<open>natives-windows-64\<close>; with \<^verbatim>\<open>LibraryInfo.resolve\<close> bound the
  library is native and its synthesised download path carries the classifier.\<close>

lemma native_library_x64:
  "map_sum id (map_option (\<lambda>l. (name l, isNative l, a_path (download l))))
       (resolveLibrary_in (Some resolve) occurs_in twitch_platform windows_x64)
     = Inr (Some (''tv.twitch:twitch-platform:5.16:natives-windows-64'', True,
                  ''tv/twitch/twitch-platform/5.16/twitch-platform-5.16-natives-windows-64.jar''))"
  by (simp add: native_classifier_def js_replace_def startsWith_def windows_x64_def
        resolveLibrary_in_def twitch_platform_def
        Let_def resolve_def endsWith_def dots_to_slashes_def new_ResolvedLibrary_def)


end
